theory Spec2Isabelle
  imports Main "HOL-Library.AList"
begin

section \<open>Upload sessions of the Hexo blog backend (lib/uploadSessions.js)\<close>

text \<open>
  A shallow embedding of the note-import session module. JavaScript strings are
  modelled as \<open>string\<close> (lists of code units below 256), a missing or \<open>null\<close>
  value as \<open>None\<close>, plain objects used as dictionaries as association lists of their
  own properties in insertion order, thrown exceptions as the left summand of a sum
  type, and the file system as an explicit \<open>world\<close> that every operation takes and
  returns. The libraries the module calls (hexo-util, hexo-front-matter, crypto, Date)
  are parameters, collected in an environment record.
\<close>

subsection \<open>String primitives\<close>

text \<open>\<open>s.slice(a, b)\<close> and \<open>s.slice(a)\<close> for non-negative indices.\<close>

definition slice :: "nat \<Rightarrow> nat \<Rightarrow> string \<Rightarrow> string" where
  "slice a b s = take (b - a) (drop a s)"

definition sliceFrom :: "nat \<Rightarrow> string \<Rightarrow> string" where
  "sliceFrom a s = drop a s"

text \<open>The characters matched by \<open>\s\<close> and removed by \<open>trim()\<close>, among code units below 256.\<close>

definition isSpace :: "char \<Rightarrow> bool" where
  "isSpace c = (c \<in> set [CHR 0x09, CHR 0x0A, CHR 0x0B, CHR 0x0C, CHR 0x0D, CHR 0x20, CHR 0xA0])"

definition trim :: "string \<Rightarrow> string" where
  "trim s = rev (dropWhile isSpace (rev (dropWhile isSpace s)))"

text \<open>\<open>s.split('-')\<close> and \<open>parts.join('-')\<close>.\<close>

fun splitDash :: "string \<Rightarrow> string list" where
  "splitDash [] = [[]]"
| "splitDash (c # cs) =
     (if c = CHR ''-'' then [] # splitDash cs
      else (case splitDash cs of [] \<Rightarrow> [[c]] | p # ps \<Rightarrow> (c # p) # ps))"

fun joinDash :: "string list \<Rightarrow> string" where
  "joinDash [] = []"
| "joinDash [p] = p"
| "joinDash (p # q # ps) = p @ ''-'' @ joinDash (q # ps)"

text \<open>\<open>filename.replace(/\.[^.]+$/, '')\<close>: drop the last extension, when it is not empty.\<close>

definition baseName :: "string \<Rightarrow> string" where
  "baseName filename =
     (let ext = takeWhile (\<lambda>c. c \<noteq> CHR ''.'') (rev filename)
      in if ext \<noteq> [] \<and> length ext < length filename
         then take (length filename - length ext - 1) filename
         else filename)"

text \<open>Truthiness of a string that may be missing: \<open>undefined\<close>, \<open>null\<close> and \<open>''\<close> are falsy.\<close>

definition truthy :: "string option \<Rightarrow> bool" where
  "truthy v = (case v of None \<Rightarrow> False | Some s \<Rightarrow> s \<noteq> [])"

subsection \<open>Errors\<close>

text \<open>
  The exceptions the module can raise: \<open>new Error(message)\<close>, an error of the \<open>fs\<close>
  module with its \<open>code\<close> and path, and the two run-time errors of the language that
  the module's own text can raise on well-typed input.
\<close>

datatype error =
    Error string
  | FsError string string
  | ReferenceError string
  | TypeError string

text \<open>
  Plain objects inherit the properties of \<open>Object.prototype\<close>, so \<open>obj[key]\<close> is
  truthy for these keys although \<open>obj\<close> has no such property of its own.
\<close>

definition objectPrototypeKeys :: "string list" where
  "objectPrototypeKeys =
     [''constructor'', ''__defineGetter__'', ''__defineSetter__'', ''hasOwnProperty'',
      ''__lookupGetter__'', ''__lookupSetter__'', ''isPrototypeOf'',
      ''propertyIsEnumerable'', ''toString'', ''valueOf'', ''__proto__'',
      ''toLocaleString'']"

subsection \<open>Folder names and permalinks\<close>

definition folderFromDateSlug :: "string \<Rightarrow> string \<Rightarrow> string" where
  "folderFromDateSlug dateISO slug = slice 0 10 dateISO @ ''-'' @ slug"

definition permalinkFromDateSlug :: "string \<Rightarrow> string \<Rightarrow> string" where
  "permalinkFromDateSlug dateISO slug =
     (let y = slice 0 4 dateISO;
          m = slice 5 7 dateISO;
          d = slice 8 10 dateISO
      in ''/'' @ y @ ''/'' @ m @ ''/'' @ d @ ''/'' @ slug @ ''/'')"

definition permalinkFromFolder :: "string \<Rightarrow> string" where
  "permalinkFromFolder folder =
     (let date = slice 0 10 folder;
          slug = sliceFrom 11 folder
      in if date = [] \<or> slug = [] then ''/posts/'' @ folder @ ''/''
         else (let y = slice 0 4 date;
                   m = slice 5 7 date;
                   d = slice 8 10 date
               in ''/'' @ y @ ''/'' @ m @ ''/'' @ d @ ''/'' @ slug @ ''/''))"

subsection \<open>Link extractor\<close>

text \<open>
  A global regular expression is applied by trying the pattern at every index from
  left to right; after a match of \<open>n\<close> characters the search resumes behind it. The
  scanner below is given the pattern as a function that matches at the head of its
  input and returns the match's data and length, and skips \<open>n - 1\<close> further characters
  after a match.
\<close>

fun scanWith :: "(string \<Rightarrow> ('a \<times> nat) option) \<Rightarrow> nat \<Rightarrow> string \<Rightarrow> 'a list" where
  "scanWith m skip [] = []"
| "scanWith m skip (c # cs) =
     (if 0 < skip then scanWith m (skip - 1) cs
      else (case m (c # cs) of
              Some (x, n) \<Rightarrow> x # scanWith m (n - 1) cs
            | None \<Rightarrow> scanWith m 0 cs))"

text \<open>
  \<open>/\[\[([^\]|]+)(?:\|([^\]]+))?\]\]/\<close> at the head of the input. Each group is a greedy
  run of a negated class followed by a character outside of it, so a shorter run
  cannot match and the pattern has at most one match at an index.
\<close>

definition matchWikiAt :: "string \<Rightarrow> ((string \<times> string option) \<times> nat) option" where
  "matchWikiAt s =
     (case s of
        c1 # c2 # r \<Rightarrow>
          if c1 = CHR ''['' \<and> c2 = CHR ''['' then
            (let g1 = takeWhile (\<lambda>c. c \<noteq> CHR '']'' \<and> c \<noteq> CHR ''|'') r;
                 r1 = dropWhile (\<lambda>c. c \<noteq> CHR '']'' \<and> c \<noteq> CHR ''|'') r
             in if g1 = [] then None
                else if take 1 r1 = ''|'' then
                  (let g2 = takeWhile (\<lambda>c. c \<noteq> CHR '']'') (drop 1 r1);
                       r2 = dropWhile (\<lambda>c. c \<noteq> CHR '']'') (drop 1 r1)
                   in if g2 \<noteq> [] \<and> take 2 r2 = '']]''
                      then Some ((g1, Some g2), 2 + length g1 + 1 + length g2 + 2)
                      else None)
                else if take 2 r1 = '']]'' then Some ((g1, None), 2 + length g1 + 2)
                else None)
          else None
      | _ \<Rightarrow> None)"

text \<open>\<open>/\[([^\]]+)\]\((https?:\/\/[^)\s]+)\)/\<close> at the head of the input.\<close>

definition matchExternalAt :: "string \<Rightarrow> ((string \<times> string) \<times> nat) option" where
  "matchExternalAt s =
     (case s of
        c # r \<Rightarrow>
          if c = CHR ''['' then
            (let g1 = takeWhile (\<lambda>c. c \<noteq> CHR '']'') r;
                 r1 = dropWhile (\<lambda>c. c \<noteq> CHR '']'') r
             in if g1 = [] \<or> take 6 r1 \<noteq> ''](http'' then None
                else
                  (let scheme = (if take 1 (drop 6 r1) = ''s'' then ''https'' else ''http'');
                       r2 = drop (2 + length scheme) r1
                   in if take 3 r2 \<noteq> ''://'' then None
                      else
                        (let g2 = takeWhile (\<lambda>c. c \<noteq> CHR '')'' \<and> \<not> isSpace c) (drop 3 r2);
                             r3 = dropWhile (\<lambda>c. c \<noteq> CHR '')'' \<and> \<not> isSpace c) (drop 3 r2)
                         in if g2 \<noteq> [] \<and> take 1 r3 = '')''
                            then Some ((g1, scheme @ ''://'' @ g2),
                                       1 + length g1 + 2 + length scheme + 3 + length g2 + 1)
                            else None)))
          else None
      | [] \<Rightarrow> None)"

record wikiLink =
  wl_targetTitle :: string
  wl_alias :: string
  wl_targetSlug :: string

record externalLink =
  el_text :: string
  el_url :: string

subsection \<open>Data model\<close>

datatype tagsValue = TagsAbsent | TagsString string | TagsArray "string list"

text \<open>The object returned by the front-matter parser: the fields the module reads, the
  other keys, and \<open>_content\<close>.\<close>

record frontMatter =
  fm_title :: "string option"
  fm_date :: "string option"
  fm_slug :: "string option"
  fm_tags :: tagsValue
  fm_other :: "(string \<times> string) list"
  fm_content :: "string option"

record meta =
  m_title :: string
  m_date :: string
  m_slug :: string
  m_tags :: tagsValue
  m_other :: "(string \<times> string) list"

record depInfo =
  d_alias :: string
  d_targetTitle :: string

record dependencies =
  dep_notes :: "(string \<times> depInfo) list"
  dep_archives :: "(string \<times> string) list"

record "note" =
  n_slug :: string
  n_title :: string
  n_date :: string
  n_meta :: meta
  n_body :: string
  n_file :: string
  n_isMain :: bool
  n_dependencies :: dependencies

record archive =
  a_id :: string
  a_url :: string
  a_resolved :: bool
  a_filename :: "string option"
  a_filePath :: "string option"
  a_referencedBy :: "string list"

record pendingNoteInfo =
  p_targetTitle :: string
  p_referencedBy :: "string list"

record session =
  s_id :: string
  s_createdAt :: string
  s_notes :: "(string \<times> note) list"
  s_archives :: "(string \<times> archive) list"
  s_pendingNotes :: "(string \<times> pendingNoteInfo) list"
  s_mainSlug :: "string option"

record noteSummary =
  ns_slug :: string
  ns_title :: string
  ns_isMain :: bool
  ns_missingNotes :: "(string \<times> string) list"
  ns_missingArchives :: "(string \<times> string) list"

record summary =
  sm_sessionId :: string
  sm_mainSlug :: "string option"
  sm_notes :: "noteSummary list"
  sm_pendingNotes :: "(string \<times> string \<times> string list) list"
  sm_pendingArchives :: "(string \<times> string \<times> string list) list"
  sm_ready :: bool

subsection \<open>Libraries, clock and random source\<close>

text \<open>
  The functions the module imports. \<open>slugize\<close> is \<open>slugize(_, {transform: 1})\<close> of
  hexo-util, \<open>md5hex\<close> the hexadecimal MD5 digest, \<open>fmParse\<close> and \<open>fmStringify\<close> the
  front-matter parser and printer, \<open>parseDate\<close> the ISO rendering of \<open>new Date(v)\<close>
  (\<open>None\<close> for an invalid date). \<open>normalizeTags\<close> is the binding of the identifier
  of that name in the module's scope: \<open>None\<close> when the identifier is not bound.
\<close>

record env =
  slugize :: "string \<Rightarrow> string"
  md5hex :: "string \<Rightarrow> string"
  fmParse :: "string \<Rightarrow> error + frontMatter"
  fmStringify :: "meta \<Rightarrow> string \<Rightarrow> string"
  parseDate :: "string \<Rightarrow> string option"
  encodeURI :: "string \<Rightarrow> string"
  decodeBase64 :: "string \<Rightarrow> string"
  normalizeTags :: "(tagsValue \<Rightarrow> string list) option"

text \<open>What one call reads from the clock and from \<open>crypto.randomBytes\<close>: the ISO
  rendering of \<open>new Date()\<close> and the value of \<open>randomId()\<close> at each place that may
  call it.\<close>

record draws =
  d_now :: string
  d_randomId :: "nat \<Rightarrow> string"

text \<open>
  The file system. The JSON files are kept parsed, under their path;
  \<open>w_posts\<close> is the listing of the posts directory (\<open>None\<close> when it does not exist);
  \<open>w_refused\<close> holds the paths on which the file system refuses an operation.
  \<open>path.join\<close> is modelled by concatenation with a slash, without normalisation.
\<close>

record world =
  w_sessions :: "string \<rightharpoonup> session"
  w_files :: "string \<rightharpoonup> string"
  w_posts :: "string list option"
  w_refused :: "string \<Rightarrow> bool"

definition postsRoot :: string where
  "postsRoot = ''posts''"

definition sessionsRoot :: string where
  "sessionsRoot = ''uploads/sessions''"

definition dirname :: "string \<Rightarrow> string" where
  "dirname p = rev (drop 1 (dropWhile (\<lambda>c. c \<noteq> CHR ''/'') (rev p)))"

definition isPrefix :: "string \<Rightarrow> string \<Rightarrow> bool" where
  "isPrefix p s = (take (length p) s = p)"

definition ensureDir :: "world \<Rightarrow> string \<Rightarrow> error + world" where
  "ensureDir w dir =
     (if w_refused w dir then Inl (FsError ''EACCES'' dir)
      else if dir = postsRoot then
        Inr (w\<lparr>w_posts := Some (case w_posts w of None \<Rightarrow> [] | Some l \<Rightarrow> l)\<rparr>)
      else if isPrefix (postsRoot @ ''/'') dir then
        (let folder = takeWhile (\<lambda>c. c \<noteq> CHR ''/'') (drop (length postsRoot + 1) dir);
             l = (case w_posts w of None \<Rightarrow> [] | Some l \<Rightarrow> l)
         in Inr (w\<lparr>w_posts := Some (if folder \<in> set l then l else l @ [folder])\<rparr>))
      else Inr w)"

definition writeFile :: "world \<Rightarrow> string \<Rightarrow> string \<Rightarrow> error + world" where
  "writeFile w file content =
     (if w_refused w file then Inl (FsError ''EACCES'' file)
      else Inr (w\<lparr>w_files := (w_files w)(file \<mapsto> content)\<rparr>))"

definition copyFile :: "world \<Rightarrow> string \<Rightarrow> string \<Rightarrow> error + world" where
  "copyFile w src dest =
     (if w_refused w src then Inl (FsError ''EACCES'' src)
      else (case w_files w src of
              None \<Rightarrow> Inl (FsError ''ENOENT'' src)
            | Some content \<Rightarrow> writeFile w dest content))"

definition readJSON :: "world \<Rightarrow> string \<Rightarrow> error + session" where
  "readJSON w file =
     (if w_refused w file then Inl (FsError ''EACCES'' file)
      else (case w_sessions w file of
              None \<Rightarrow> Inl (FsError ''ENOENT'' file)
            | Some data \<Rightarrow> Inr data))"

definition writeJSON :: "world \<Rightarrow> string \<Rightarrow> session \<Rightarrow> error + world" where
  "writeJSON w file data =
     (case ensureDir w (dirname file) of
        Inl e \<Rightarrow> Inl e
      | Inr w1 \<Rightarrow>
          if w_refused w1 file then Inl (FsError ''EACCES'' file)
          else Inr (w1\<lparr>w_sessions := (w_sessions w1)(file \<mapsto> data)\<rparr>))"

text \<open>\<open>fsp.rm(dir, {recursive: true, force: true})\<close>: every file below \<open>dir\<close> goes.\<close>

definition rmTree :: "world \<Rightarrow> string \<Rightarrow> error + world" where
  "rmTree w dir =
     (if w_refused w dir then Inl (FsError ''EACCES'' dir)
      else Inr (w\<lparr>w_sessions := (\<lambda>p. if isPrefix (dir @ ''/'') p then None else w_sessions w p),
                  w_files := (\<lambda>p. if isPrefix (dir @ ''/'') p then None else w_files w p)\<rparr>))"

definition readdir :: "world \<Rightarrow> string \<Rightarrow> error + string list" where
  "readdir w dir =
     (if w_refused w dir then Inl (FsError ''EACCES'' dir)
      else (case w_posts w of
              None \<Rightarrow> Inl (FsError ''ENOENT'' dir)
            | Some l \<Rightarrow> Inr l))"

subsection \<open>Identifiers\<close>

definition archiveIdFromUrl :: "env \<Rightarrow> string \<Rightarrow> string" where
  "archiveIdFromUrl env url = slice 0 10 (md5hex env url)"

definition normalizeDate :: "env \<Rightarrow> draws \<Rightarrow> string option \<Rightarrow> string" where
  "normalizeDate env dr v =
     (if truthy v then (case parseDate env (the v) of None \<Rightarrow> d_now dr | Some d \<Rightarrow> d)
      else d_now dr)"

text \<open>\<open>slugize(title || '') || slugize(randomId())\<close>; \<open>rid\<close> is what \<open>randomId()\<close>
  returns if it is called.\<close>

definition slugFromTitle :: "env \<Rightarrow> string \<Rightarrow> string \<Rightarrow> string" where
  "slugFromTitle env rid title =
     (if slugize env title \<noteq> [] then slugize env title else slugize env rid)"

subsection \<open>Published-post cache\<close>

definition cacheSlug :: "string \<Rightarrow> string" where
  "cacheSlug folder =
     (let parts = splitDash folder in
      if joinDash (drop 3 parts) \<noteq> [] then joinDash (drop 3 parts)
      else if joinDash (drop 2 parts) \<noteq> [] then joinDash (drop 2 parts)
      else if joinDash (drop 1 parts) \<noteq> [] then joinDash (drop 1 parts)
      else folder)"

fun cacheFolders :: "(string \<times> string) list \<Rightarrow> string list \<Rightarrow> (string \<times> string) list" where
  "cacheFolders cache [] = cache"
| "cacheFolders cache (folder # folders) =
     (if length (splitDash folder) < 2 then cacheFolders cache folders
      else cacheFolders (AList.update (cacheSlug folder) folder cache) folders)"

definition buildExistingCache :: "world \<Rightarrow> error + (string \<times> string) list" where
  "buildExistingCache w =
     (case readdir w postsRoot of
        Inr folders \<Rightarrow> Inr (cacheFolders [] folders)
      | Inl (FsError code p) \<Rightarrow> if code \<noteq> ''ENOENT'' then Inl (FsError code p) else Inr []
      | Inl e \<Rightarrow> Inl e)"

text \<open>\<open>cache[slug] || null\<close>. The module asks the cache only after \<open>session.notes[slug]\<close>
  was falsy, which excludes the inherited keys.\<close>

definition findExistingFolder :: "(string \<times> string) list \<Rightarrow> string \<Rightarrow> string option" where
  "findExistingFolder cache slug =
     (case map_of cache slug of
        None \<Rightarrow> None
      | Some folder \<Rightarrow> if folder = [] then None else Some folder)"

subsection \<open>Parsing a note\<close>

definition parseMarkdown :: "env \<Rightarrow> draws \<Rightarrow> string \<Rightarrow> string \<Rightarrow> error + (meta \<times> string)" where
  "parseMarkdown env dr raw filename =
     (case fmParse env raw of
        Inl e \<Rightarrow> Inl e
      | Inr data \<Rightarrow>
          (let body = (case fm_content data of None \<Rightarrow> [] | Some b \<Rightarrow> b);
               title = (if \<not> truthy (fm_title data) then baseName filename
                        else the (fm_title data));
               date = normalizeDate env dr (fm_date data);
               slug = (if \<not> truthy (fm_slug data) then slugFromTitle env (d_randomId dr 0) title
                       else the (fm_slug data))
           in Inr (\<lparr>m_title = title, m_date = date, m_slug = slug,
                     m_tags = fm_tags data, m_other = fm_other data\<rparr>, body)))"

text \<open>The \<open>k\<close>-th link of a body draws \<open>d_randomId dr (Suc k)\<close> when its title slugizes
  to the empty string.\<close>

definition extractWikiLinks :: "env \<Rightarrow> draws \<Rightarrow> string \<Rightarrow> wikiLink list" where
  "extractWikiLinks env dr body =
     map (\<lambda>(k, (g1, g2)).
            \<lparr>wl_targetTitle = trim g1,
             wl_alias = trim (case g2 of None \<Rightarrow> g1 | Some g \<Rightarrow> g),
             wl_targetSlug = slugFromTitle env (d_randomId dr (Suc k)) (trim g1)\<rparr>)
         (enumerate 0 (scanWith matchWikiAt 0 body))"

definition extractExternalLinks :: "string \<Rightarrow> externalLink list" where
  "extractExternalLinks body =
     map (\<lambda>(g1, g2). \<lparr>el_text = g1, el_url = g2\<rparr>) (scanWith matchExternalAt 0 body)"

subsection \<open>Session store\<close>

definition sessionPath :: "string \<Rightarrow> string" where
  "sessionPath sid = sessionsRoot @ ''/'' @ sid"

definition sessionFile :: "string \<Rightarrow> string" where
  "sessionFile sid = sessionPath sid @ ''/session.json''"

definition defaultSession :: "draws \<Rightarrow> string \<Rightarrow> session" where
  "defaultSession dr sid =
     \<lparr>s_id = sid, s_createdAt = d_now dr, s_notes = [], s_archives = [],
      s_pendingNotes = [], s_mainSlug = None\<rparr>"

definition loadSession :: "world \<Rightarrow> string \<Rightarrow> error + session" where
  "loadSession w sid =
     (case readJSON w (sessionFile sid) of
        Inr s \<Rightarrow> Inr s
      | Inl (FsError code p) \<Rightarrow>
          if code = ''ENOENT'' then Inl (Error ''Session not found'') else Inl (FsError code p)
      | Inl e \<Rightarrow> Inl e)"

definition saveSession :: "world \<Rightarrow> session \<Rightarrow> error + world" where
  "saveSession w s = writeJSON w (sessionFile (s_id s)) s"

definition createSession :: "draws \<Rightarrow> world \<Rightarrow> world \<times> (error + string)" where
  "createSession dr w =
     (let sid = d_randomId dr 0 in
      case ensureDir w (sessionPath sid) of
        Inl e \<Rightarrow> (w, Inl e)
      | Inr w1 \<Rightarrow>
          (case saveSession w1 (defaultSession dr sid) of
             Inl e \<Rightarrow> (w1, Inl e)
           | Inr w2 \<Rightarrow> (w2, Inr sid)))"

definition notePath :: "string \<Rightarrow> string \<Rightarrow> string" where
  "notePath sid slug = sessionPath sid @ ''/notes/'' @ slug @ ''.md''"

definition archivePath :: "string \<Rightarrow> string \<Rightarrow> string \<Rightarrow> string" where
  "archivePath sid archiveId filename =
     sessionPath sid @ ''/archives/'' @ archiveId @ ''-'' @ filename"

subsection \<open>Dependency tracker\<close>

text \<open>
  \<open>session.notes[key]\<close> as a condition. It is truthy when the object has the key
  itself (every stored note is an object) and when it inherits the key; \<open>inherited\<close>
  lists the inherited keys with a truthy value, \<open>objectPrototypeKeys\<close> for an object
  as \<open>JSON.parse\<close> builds it.
\<close>

definition jsHas :: "string list \<Rightarrow> (string \<times> 'v) list \<Rightarrow> string \<Rightarrow> bool" where
  "jsHas inherited obj key = (map_of obj key \<noteq> None \<or> key \<in> set inherited)"

definition ensureNoteDependency ::
  "string list \<Rightarrow> session \<Rightarrow> (string \<times> string) list \<Rightarrow> string \<Rightarrow> wikiLink \<Rightarrow> session" where
  "ensureNoteDependency inherited s existingCache sourceSlug depInfo =
     (if jsHas inherited (s_notes s) (wl_targetSlug depInfo) then s
      else if findExistingFolder existingCache (wl_targetSlug depInfo) \<noteq> None then s
      else
        (let info = (case map_of (s_pendingNotes s) (wl_targetSlug depInfo) of
                       Some i \<Rightarrow> i
                     | None \<Rightarrow> \<lparr>p_targetTitle = wl_targetTitle depInfo, p_referencedBy = []\<rparr>);
             info' = (if sourceSlug \<in> set (p_referencedBy info) then info
                      else info\<lparr>p_referencedBy := p_referencedBy info @ [sourceSlug]\<rparr>)
         in s\<lparr>s_pendingNotes := AList.update (wl_targetSlug depInfo) info' (s_pendingNotes s)\<rparr>))"

text \<open>
  The two loops of \<open>updateNoteDependencies\<close>. The note is an object stored in
  \<open>session.notes\<close> and is changed in place; the model threads it beside the session
  and the caller stores it back. Nothing in the loops reads a note out of the session.
\<close>

fun updateWikiDependencies ::
  "string list \<Rightarrow> (string \<times> string) list \<Rightarrow> wikiLink list \<Rightarrow> session \<times> note \<Rightarrow> session \<times> note" where
  "updateWikiDependencies inherited existingCache [] (s, n) = (s, n)"
| "updateWikiDependencies inherited existingCache (dep # deps) (s, n) =
     updateWikiDependencies inherited existingCache deps
       (ensureNoteDependency inherited s existingCache (n_slug n) dep,
        n\<lparr>n_dependencies := (n_dependencies n)
             \<lparr>dep_notes := AList.update (wl_targetSlug dep)
                  \<lparr>d_alias = wl_alias dep, d_targetTitle = wl_targetTitle dep\<rparr>
                  (dep_notes (n_dependencies n))\<rparr>\<rparr>)"

definition registerArchive :: "env \<Rightarrow> externalLink \<Rightarrow> session \<times> note \<Rightarrow> session \<times> note" where
  "registerArchive env link sn =
     (let s = fst sn; n = snd sn;
          archiveId = archiveIdFromUrl env (el_url link);
          a = (case map_of (s_archives s) archiveId of
                 Some a \<Rightarrow> a
               | None \<Rightarrow> \<lparr>a_id = archiveId, a_url = el_url link, a_resolved = False,
                           a_filename = None, a_filePath = None, a_referencedBy = []\<rparr>);
          a' = (if n_slug n \<in> set (a_referencedBy a) then a
                else a\<lparr>a_referencedBy := a_referencedBy a @ [n_slug n]\<rparr>)
      in (s\<lparr>s_archives := AList.update archiveId a' (s_archives s)\<rparr>,
          n\<lparr>n_dependencies := (n_dependencies n)
               \<lparr>dep_archives := AList.update archiveId (el_text link)
                    (dep_archives (n_dependencies n))\<rparr>\<rparr>))"

fun updateArchiveDependencies ::
  "env \<Rightarrow> externalLink list \<Rightarrow> session \<times> note \<Rightarrow> session \<times> note" where
  "updateArchiveDependencies env [] sn = sn"
| "updateArchiveDependencies env (link # links) sn =
     updateArchiveDependencies env links (registerArchive env link sn)"

definition updateNoteDependencies ::
  "env \<Rightarrow> string list \<Rightarrow> session \<Rightarrow> note \<Rightarrow> wikiLink list \<Rightarrow> externalLink list
     \<Rightarrow> (string \<times> string) list \<Rightarrow> session \<times> note" where
  "updateNoteDependencies env inherited s n wikiLinks externalLinks existingCache =
     updateArchiveDependencies env externalLinks
       (updateWikiDependencies inherited existingCache wikiLinks (s, n))"

subsection \<open>Status summarizer\<close>

definition summarizeSession :: "world \<Rightarrow> string list \<Rightarrow> session \<Rightarrow> error + summary" where
  "summarizeSession w inherited s =
     (case buildExistingCache w of
        Inl e \<Rightarrow> Inl e
      | Inr existingCache \<Rightarrow>
          (let pendingNotes =
                 map (\<lambda>(slug, info). (slug, p_targetTitle info, p_referencedBy info))
                     (s_pendingNotes s);
               pendingArchives =
                 map (\<lambda>a. (a_id a, a_url a, a_referencedBy a))
                     (filter (\<lambda>a. \<not> a_resolved a) (map snd (s_archives s)));
               noteSummaries =
                 map (\<lambda>n.
                        \<lparr>ns_slug = n_slug n, ns_title = n_title n, ns_isMain = n_isMain n,
                         ns_missingNotes =
                           map (\<lambda>(dep, info). (dep, d_alias info))
                               (filter (\<lambda>(dep, info). \<not> jsHas inherited (s_notes s) dep
                                          \<and> findExistingFolder existingCache dep = None)
                                       (dep_notes (n_dependencies n))),
                         ns_missingArchives =
                           filter (\<lambda>(aid, text).
                                     (case map_of (s_archives s) aid of
                                        None \<Rightarrow> True
                                      | Some a \<Rightarrow> \<not> a_resolved a))
                                  (dep_archives (n_dependencies n))\<rparr>)
                     (map snd (s_notes s));
               ready = (length pendingNotes = 0 \<and> length pendingArchives = 0)
           in Inr \<lparr>sm_sessionId = s_id s, sm_mainSlug = s_mainSlug s, sm_notes = noteSummaries,
                   sm_pendingNotes = pendingNotes, sm_pendingArchives = pendingArchives,
                   sm_ready = ready\<rparr>))"

definition getSession :: "world \<Rightarrow> string \<Rightarrow> error + summary" where
  "getSession w sid =
     (case loadSession w sid of
        Inl e \<Rightarrow> Inl e
      | Inr s \<Rightarrow> summarizeSession w objectPrototypeKeys s)"

subsection \<open>Adding a note\<close>

text \<open>
  Assigning to the key \<open>__proto__\<close> of a plain object replaces the object's prototype
  and adds no property: a note whose slug is \<open>__proto__\<close> is not stored, and for the
  rest of the call \<open>session.notes\<close> inherits the truthy fields of that note.
\<close>

definition noteTruthyKeys :: "note \<Rightarrow> string list" where
  "noteTruthyKeys n =
     map fst (filter snd
       [(''slug'', n_slug n \<noteq> []), (''title'', n_title n \<noteq> []), (''date'', n_date n \<noteq> []),
        (''meta'', True), (''body'', n_body n \<noteq> []), (''file'', n_file n \<noteq> []),
        (''isMain'', n_isMain n), (''dependencies'', True)])"

definition inheritedAfter :: "note \<Rightarrow> string list" where
  "inheritedAfter n =
     (if n_slug n = ''__proto__'' then noteTruthyKeys n @ objectPrototypeKeys
      else objectPrototypeKeys)"

definition storeNote :: "note \<Rightarrow> (string \<times> note) list \<Rightarrow> (string \<times> note) list" where
  "storeNote n notes =
     (if n_slug n = ''__proto__'' then notes else AList.update (n_slug n) n notes)"

text \<open>The assignments of \<open>addNote\<close> between the tag normalisation and the save.\<close>

definition registerNote ::
  "env \<Rightarrow> session \<Rightarrow> note \<Rightarrow> bool \<Rightarrow> wikiLink list \<Rightarrow> externalLink list
     \<Rightarrow> (string \<times> string) list \<Rightarrow> session" where
  "registerNote env s n isMain wikiLinks externalLinks existingCache =
     (let s1 = s\<lparr>s_notes := storeNote n (s_notes s)\<rparr>;
          s2 = (if isMain then s1\<lparr>s_mainSlug := Some (n_slug n)\<rparr> else s1);
          s3 = s2\<lparr>s_pendingNotes := AList.delete (n_slug n) (s_pendingNotes s2)\<rparr>;
          sn = updateNoteDependencies env (inheritedAfter n) s3 n wikiLinks externalLinks
                 existingCache
      in (fst sn)\<lparr>s_notes := storeNote (snd sn) (s_notes (fst sn))\<rparr>)"

text \<open>The object that \<open>addNote\<close> stores under \<open>session.notes[slug]\<close>.\<close>

definition newNote :: "meta \<Rightarrow> string \<Rightarrow> string \<Rightarrow> bool \<Rightarrow> note" where
  "newNote meta body fileTarget isMain =
     \<lparr>n_slug = m_slug meta, n_title = m_title meta, n_date = m_date meta, n_meta = meta,
      n_body = body, n_file = fileTarget, n_isMain = isMain,
      n_dependencies = \<lparr>dep_notes = [], dep_archives = []\<rparr>\<rparr>"

definition addNote ::
  "env \<Rightarrow> draws \<Rightarrow> world \<Rightarrow> string \<Rightarrow> string option \<Rightarrow> string option \<Rightarrow> bool
     \<Rightarrow> world \<times> (error + summary)" where
  "addNote env dr w sessionId filename content isMain =
     (if \<not> truthy filename \<or> \<not> truthy content then (w, Inl (Error ''Filename and content required''))
      else case loadSession w sessionId of
        Inl e \<Rightarrow> (w, Inl e)
      | Inr s \<Rightarrow>
      (case buildExistingCache w of
        Inl e \<Rightarrow> (w, Inl e)
      | Inr existingCache \<Rightarrow>
      (case parseMarkdown env dr (the content) (the filename) of
        Inl e \<Rightarrow> (w, Inl e)
      | Inr (meta, body) \<Rightarrow>
      (let slug = m_slug meta;
           fileTarget = notePath sessionId slug
       in case ensureDir w (dirname fileTarget) of
        Inl e \<Rightarrow> (w, Inl e)
      | Inr w1 \<Rightarrow>
      (case writeFile w1 fileTarget (the content) of
        Inl e \<Rightarrow> (w1, Inl e)
      | Inr w2 \<Rightarrow>
      (let wikiLinks = extractWikiLinks env dr body;
           externalLinks = extractExternalLinks body
       in case normalizeTags env of
        None \<Rightarrow> (w2, Inl (ReferenceError ''normalizeTags is not defined''))
      | Some normalizer \<Rightarrow>
      (let meta' = meta\<lparr>m_tags := TagsArray (normalizer (m_tags meta))\<rparr>;
           n = newNote meta' body fileTarget isMain;
           s' = registerNote env s n isMain wikiLinks externalLinks existingCache
       in case saveSession w2 s' of
        Inl e \<Rightarrow> (w2, Inl e)
      | Inr w3 \<Rightarrow> (w3, summarizeSession w3 (inheritedAfter n) s'))))))))"

subsection \<open>Adding an archive\<close>

text \<open>\<open>data.replace(/^data:[^,]+,/, '')\<close>.\<close>

definition stripDataUri :: "string \<Rightarrow> string" where
  "stripDataUri d =
     (if take 5 d = ''data:'' \<and> takeWhile (\<lambda>c. c \<noteq> CHR '','') (drop 5 d) \<noteq> []
         \<and> dropWhile (\<lambda>c. c \<noteq> CHR '','') (drop 5 d) \<noteq> []
      then drop 1 (dropWhile (\<lambda>c. c \<noteq> CHR '','') (drop 5 d))
      else d)"

definition addArchive ::
  "env \<Rightarrow> world \<Rightarrow> string \<Rightarrow> string option \<Rightarrow> string option \<Rightarrow> string option
     \<Rightarrow> world \<times> (error + summary)" where
  "addArchive env w sessionId sourceUrl filename data =
     (if \<not> truthy sourceUrl \<or> \<not> truthy filename \<or> \<not> truthy data
      then (w, Inl (Error ''Archive upload requires url, filename and data''))
      else case loadSession w sessionId of
        Inl e \<Rightarrow> (w, Inl e)
      | Inr s \<Rightarrow>
      (let archiveId = archiveIdFromUrl env (the sourceUrl)
       in case map_of (s_archives s) archiveId of
        None \<Rightarrow> (w, Inl (Error ''Archive was not requested''))
      | Some a \<Rightarrow>
      (let buffer = decodeBase64 env (stripDataUri (the data));
           fileTarget = archivePath sessionId archiveId (the filename)
       in case ensureDir w (dirname fileTarget) of
        Inl e \<Rightarrow> (w, Inl e)
      | Inr w1 \<Rightarrow>
      (case writeFile w1 fileTarget buffer of
        Inl e \<Rightarrow> (w1, Inl e)
      | Inr w2 \<Rightarrow>
      (let s' = s\<lparr>s_archives := AList.update archiveId
                     (a\<lparr>a_resolved := True, a_filename := filename,
                        a_filePath := Some fileTarget\<rparr>) (s_archives s)\<rparr>
       in case saveSession w2 s' of
        Inl e \<Rightarrow> (w2, Inl e)
      | Inr w3 \<Rightarrow> (w3, summarizeSession w3 objectPrototypeKeys s'))))))"

subsection \<open>Readiness\<close>

definition assertReady :: "session \<Rightarrow> error + unit" where
  "assertReady s =
     (if 0 < length (map fst (s_pendingNotes s))
      then Inl (Error ''Cannot commit: missing linked notes'')
      else if length (filter (\<lambda>a. \<not> a_resolved a) (map snd (s_archives s))) \<noteq> 0
      then Inl (Error ''Cannot commit: missing archive uploads'')
      else if \<not> truthy (s_mainSlug s) then Inl (Error ''No main note uploaded'')
      else Inr ())"

subsection \<open>Commit engine\<close>

text \<open>\<open>body.replace(regex, callback)\<close> for a global regular expression: the callback
  runs on each match from left to right (\<open>k\<close> counts them) and an exception ends the call.\<close>

fun replaceWith ::
  "(string \<Rightarrow> ('a \<times> nat) option) \<Rightarrow> (nat \<Rightarrow> 'a \<Rightarrow> error + string) \<Rightarrow> nat \<Rightarrow> nat \<Rightarrow> string
     \<Rightarrow> error + string" where
  "replaceWith m f k skip [] = Inr []"
| "replaceWith m f k skip (c # cs) =
     (if 0 < skip then replaceWith m f k (skip - 1) cs
      else (case m (c # cs) of
              Some (x, n) \<Rightarrow>
                (case f k x of
                   Inl e \<Rightarrow> Inl e
                 | Inr replacement \<Rightarrow>
                     (case replaceWith m f (Suc k) (n - 1) cs of
                        Inl e \<Rightarrow> Inl e
                      | Inr rest \<Rightarrow> Inr (replacement @ rest)))
            | None \<Rightarrow>
                (case replaceWith m f k 0 cs of
                   Inl e \<Rightarrow> Inl e
                 | Inr rest \<Rightarrow> Inr (c # rest))))"

text \<open>For an inherited key \<open>session.notes[targetSlug]\<close> is a function or the prototype
  itself, its \<open>date\<close> is undefined and \<open>dateISO.slice\<close> raises.\<close>

definition resolveNoteUrl ::
  "session \<Rightarrow> string \<Rightarrow> (string \<times> string) list \<Rightarrow> (string \<times> string) list
     \<Rightarrow> error + string option" where
  "resolveNoteUrl s targetSlug folderMap existingCache =
     (case map_of (s_notes s) targetSlug of
        Some n \<Rightarrow> Inr (Some (permalinkFromDateSlug (n_date n) targetSlug))
      | None \<Rightarrow>
          if targetSlug \<in> set objectPrototypeKeys
          then Inl (TypeError ''Cannot read properties of undefined (reading slice)'')
          else (case findExistingFolder existingCache targetSlug of
                  Some existing \<Rightarrow> Inr (Some (permalinkFromFolder existing))
                | None \<Rightarrow> Inr None))"

definition convertWikiLinks ::
  "env \<Rightarrow> draws \<Rightarrow> string \<Rightarrow> session \<Rightarrow> string \<Rightarrow> (string \<times> string) list
     \<Rightarrow> (string \<times> string) list \<Rightarrow> error + string" where
  "convertWikiLinks env dr body s currentSlug folderMap existingCache =
     replaceWith matchWikiAt
       (\<lambda>k (target, alias).
          (let targetSlug = slugFromTitle env (d_randomId dr k) (trim target);
               display = trim (case alias of None \<Rightarrow> target | Some a \<Rightarrow> a)
           in case resolveNoteUrl s targetSlug folderMap existingCache of
                Inl e \<Rightarrow> Inl e
              | Inr None \<Rightarrow> Inr display
              | Inr (Some url) \<Rightarrow> Inr (''['' @ display @ ''](''  @ url @ '')'')))
       0 0 body"

definition convertExternalLinks ::
  "env \<Rightarrow> string \<Rightarrow> note \<Rightarrow> (string \<times> string) list \<Rightarrow> error + string" where
  "convertExternalLinks env body n archiveMap =
     replaceWith matchExternalAt
       (\<lambda>k (text, url).
          (case map_of archiveMap (archiveIdFromUrl env url) of
             None \<Rightarrow> Inr (''['' @ text @ ''](''  @ url @ '')'')
           | Some newUrl \<Rightarrow>
               if newUrl = [] then Inr (''['' @ text @ ''](''  @ url @ '')'')
               else Inr (''['' @ text @ ''](''  @ newUrl @ '')'')))
       0 0 body"

definition basename :: "string \<Rightarrow> string" where
  "basename p =
     rev (takeWhile (\<lambda>c. c \<noteq> CHR ''/'') (dropWhile (\<lambda>c. c = CHR ''/'') (rev p)))"

text \<open>The loop over \<open>Object.keys(note.dependencies.archives)\<close>: copies each archive
  under the post and collects the links to the copies.\<close>

fun copyArchives ::
  "env \<Rightarrow> session \<Rightarrow> string \<Rightarrow> string \<Rightarrow> string list \<Rightarrow> world \<times> (string \<times> string) list
     \<Rightarrow> world \<times> (error + (string \<times> string) list)" where
  "copyArchives env s folder destDir [] (w, archiveLinks) = (w, Inr archiveLinks)"
| "copyArchives env s folder destDir (archiveId # ids) (w, archiveLinks) =
     (let archivesDir = destDir @ ''/archives''
      in case ensureDir w archivesDir of
        Inl e \<Rightarrow> (w, Inl e)
      | Inr w1 \<Rightarrow>
      (case map_of (s_archives s) archiveId of
        None \<Rightarrow> (w1, Inl (TypeError ''Cannot read properties of undefined (reading filename)''))
      | Some a \<Rightarrow>
      (let safeName = (if truthy (a_filename a) then the (a_filename a) else archiveId @ ''.html'');
           destFile = archivesDir @ ''/'' @ archiveId @ ''-'' @ safeName
       in case a_filePath a of
        None \<Rightarrow> (w1, Inl (TypeError ''The src argument must be of type string''))
      | Some filePath \<Rightarrow>
      (case copyFile w1 filePath destFile of
        Inl e \<Rightarrow> (w1, Inl e)
      | Inr w2 \<Rightarrow>
          copyArchives env s folder destDir ids
            (w2, AList.update archiveId
                   (encodeURI env (''/posts/'' @ folder @ ''/archives/'' @ basename destFile))
                   archiveLinks)))))"

text \<open>The body of the loop over \<open>Object.entries(session.notes)\<close>, for one entry.\<close>

definition commitNote ::
  "env \<Rightarrow> draws \<Rightarrow> session \<Rightarrow> (string \<times> string) list \<Rightarrow> (string \<times> string) list
     \<Rightarrow> string \<times> note \<Rightarrow> world \<Rightarrow> world \<times> (error + unit)" where
  "commitNote env dr s folderMap existingCache entry w =
     (let slug = fst entry; n = snd entry
      in case map_of folderMap slug of
        None \<Rightarrow> (w, Inl (TypeError ''The path argument must be of type string''))
      | Some folder \<Rightarrow>
      (let destDir = postsRoot @ ''/'' @ folder
       in case ensureDir w destDir of
        Inl e \<Rightarrow> (w, Inl e)
      | Inr w1 \<Rightarrow>
      (case copyArchives env s folder destDir (map fst (dep_archives (n_dependencies n))) (w1, []) of
        (w2, Inl e) \<Rightarrow> (w2, Inl e)
      | (w2, Inr archiveLinks) \<Rightarrow>
      (case convertWikiLinks env dr (n_body n) s slug folderMap existingCache of
        Inl e \<Rightarrow> (w2, Inl e)
      | Inr body1 \<Rightarrow>
      (case convertExternalLinks env body1 n archiveLinks of
        Inl e \<Rightarrow> (w2, Inl e)
      | Inr body2 \<Rightarrow>
      (case normalizeTags env of
        None \<Rightarrow> (w2, Inl (ReferenceError ''normalizeTags is not defined''))
      | Some normalizer \<Rightarrow>
      (let meta0 = (n_meta n)\<lparr>m_slug := n_slug n, m_date := n_date n\<rparr>;
           meta1 = meta0\<lparr>m_tags := TagsArray (normalizer (m_tags meta0))\<rparr>;
           content = (if body2 \<noteq> [] \<and> last body2 = CHR 0x0A then body2 else body2 @ [CHR 0x0A]);
           output = fmStringify env meta1 content
       in case writeFile w2 (destDir @ ''/index.md'') output of
        Inl e \<Rightarrow> (w2, Inl e)
      | Inr w3 \<Rightarrow> (w3, Inr ()))))))))"

fun commitNotes ::
  "env \<Rightarrow> draws \<Rightarrow> session \<Rightarrow> (string \<times> string) list \<Rightarrow> (string \<times> string) list
     \<Rightarrow> (string \<times> note) list \<Rightarrow> world \<Rightarrow> world \<times> (error + unit)" where
  "commitNotes env dr s folderMap existingCache [] w = (w, Inr ())"
| "commitNotes env dr s folderMap existingCache (entry # entries) w =
     (case commitNote env dr s folderMap existingCache entry w of
        (w1, Inl e) \<Rightarrow> (w1, Inl e)
      | (w1, Inr u) \<Rightarrow> commitNotes env dr s folderMap existingCache entries w1)"

fun buildFolderMap :: "(string \<times> string) list \<Rightarrow> note list \<Rightarrow> (string \<times> string) list" where
  "buildFolderMap folderMap [] = folderMap"
| "buildFolderMap folderMap (n # ns) =
     buildFolderMap (AList.update (n_slug n) (folderFromDateSlug (n_date n) (n_slug n)) folderMap) ns"

text \<open>The result \<open>{success: true, folders}\<close> is the pair of its two fields.\<close>

definition commitSession ::
  "env \<Rightarrow> draws \<Rightarrow> world \<Rightarrow> string \<Rightarrow> world \<times> (error + bool \<times> string list)" where
  "commitSession env dr w sessionId =
     (case loadSession w sessionId of
        Inl e \<Rightarrow> (w, Inl e)
      | Inr s \<Rightarrow>
      (case assertReady s of
        Inl e \<Rightarrow> (w, Inl e)
      | Inr u \<Rightarrow>
      (case ensureDir w postsRoot of
        Inl e \<Rightarrow> (w, Inl e)
      | Inr w1 \<Rightarrow>
      (case buildExistingCache w1 of
        Inl e \<Rightarrow> (w1, Inl e)
      | Inr existingCache \<Rightarrow>
      (let folderMap = buildFolderMap [] (map snd (s_notes s))
       in case commitNotes env dr s folderMap existingCache (s_notes s) w1 of
        (w2, Inl e) \<Rightarrow> (w2, Inl e)
      | (w2, Inr u) \<Rightarrow>
      (case rmTree w2 (sessionPath sessionId) of
        Inl e \<Rightarrow> (w2, Inl e)
      | Inr w3 \<Rightarrow> (w3, Inr (True, map snd folderMap))))))))"

subsection \<open>The error kinds of the specification\<close>

datatype errorKind = NotFound | ValidationError | PreconditionFailed | IOError

text \<open>The kind of each exception, following the specification's list of kinds; the
  run-time errors of the language belong to none.\<close>

definition kindOf :: "error \<Rightarrow> errorKind option" where
  "kindOf e =
     (case e of
        Error msg \<Rightarrow>
          if msg = ''Session not found'' then Some NotFound
          else if msg = ''Filename and content required''
                \<or> msg = ''Archive upload requires url, filename and data''
                \<or> msg = ''Archive was not requested'' then Some ValidationError
          else if msg = ''Cannot commit: missing linked notes''
                \<or> msg = ''Cannot commit: missing archive uploads''
                \<or> msg = ''No main note uploaded'' then Some PreconditionFailed
          else None
      | FsError code p \<Rightarrow> Some IOError
      | ReferenceError msg \<Rightarrow> None
      | TypeError msg \<Rightarrow> None)"

subsection \<open>The libraries on the inputs of the examples\<close>

text \<open>
  \<open>slugize(str, {transform: 1})\<close> of hexo-util on ASCII input: control characters are
  removed, every run of white space and punctuation becomes one hyphen, hyphens at
  both ends are removed, and the result is put in lower case.
\<close>

definition isControl :: "char \<Rightarrow> bool" where
  "isControl c =
     (c \<in> set [CHR 0x00, CHR 0x01, CHR 0x02, CHR 0x03, CHR 0x04, CHR 0x05, CHR 0x06, CHR 0x07,
               CHR 0x08, CHR 0x09, CHR 0x0A, CHR 0x0B, CHR 0x0C, CHR 0x0D, CHR 0x0E, CHR 0x0F,
               CHR 0x10, CHR 0x11, CHR 0x12, CHR 0x13, CHR 0x14, CHR 0x15, CHR 0x16, CHR 0x17,
               CHR 0x18, CHR 0x19, CHR 0x1A, CHR 0x1B, CHR 0x1C, CHR 0x1D, CHR 0x1E, CHR 0x1F])"

text \<open>White space and the ASCII punctuation that separates words, by character code.\<close>

definition isSpecial :: "char \<Rightarrow> bool" where
  "isSpecial c =
     (isSpace c \<or>
      c \<in> set [CHR 0x7E, CHR 0x60, CHR 0x21, CHR 0x40, CHR 0x23, CHR 0x24, CHR 0x25, CHR 0x5E,
               CHR 0x26, CHR 0x2A, CHR 0x28, CHR 0x29, CHR 0x2D, CHR 0x5F, CHR 0x2B, CHR 0x3D,
               CHR 0x5B, CHR 0x5D, CHR 0x7B, CHR 0x7D, CHR 0x7C, CHR 0x5C, CHR 0x3B, CHR 0x3A,
               CHR 0x22, CHR 0x27, CHR 0x3C, CHR 0x3E, CHR 0x2C, CHR 0x2E, CHR 0x3F, CHR 0x2F])"

fun separateRuns :: "bool \<Rightarrow> string \<Rightarrow> string" where
  "separateRuns inRun [] = []"
| "separateRuns inRun (c # cs) =
     (if isSpecial c then (if inRun then separateRuns True cs else CHR ''-'' # separateRuns True cs)
      else c # separateRuns False cs)"

definition toLowerCase :: "string \<Rightarrow> string" where
  "toLowerCase s =
     map (\<lambda>c. case map_of (zip ''ABCDEFGHIJKLMNOPQRSTUVWXYZ'' ''abcdefghijklmnopqrstuvwxyz'') c of
                None \<Rightarrow> c
              | Some l \<Rightarrow> l) s"

definition hexoSlugize :: "string \<Rightarrow> string" where
  "hexoSlugize str =
     toLowerCase
       (rev (dropWhile (\<lambda>c. c = CHR ''-'')
          (rev (dropWhile (\<lambda>c. c = CHR ''-'')
             (separateRuns False (filter (\<lambda>c. \<not> isControl c) str))))))"

text \<open>\<open>normalizeTags\<close> as server.js defines it.\<close>

definition DEFAULT_TAG :: string where
  "DEFAULT_TAG = ''uncategorised''"

definition cleanTags :: "string list \<Rightarrow> string list" where
  "cleanTags l =
     (let cleaned = rev (remdups (rev (filter (\<lambda>t. t \<noteq> []) (map trim l))))
      in if cleaned \<noteq> [] then cleaned else [DEFAULT_TAG])"

definition serverNormalizeTags :: "tagsValue \<Rightarrow> string list" where
  "serverNormalizeTags tags =
     (case tags of
        TagsAbsent \<Rightarrow> [DEFAULT_TAG]
      | TagsString t \<Rightarrow> if t = [] then [DEFAULT_TAG] else cleanTags [t]
      | TagsArray l \<Rightarrow> cleanTags l)"

text \<open>A document without a front-matter block parses to \<open>{_content: raw}\<close>.\<close>

definition plainFrontMatter :: "string \<Rightarrow> error + frontMatter" where
  "plainFrontMatter raw =
     Inr \<lparr>fm_title = None, fm_date = None, fm_slug = None, fm_tags = TagsAbsent,
          fm_other = [], fm_content = Some raw\<rparr>"

text \<open>The MD5 digests of the URLs of the examples.\<close>

definition exampleDigest :: "string \<Rightarrow> string" where
  "exampleDigest url =
     (if url = ''http://example.com'' then ''a9b9f04336ce0181a08e774e01113b31''
      else if url = ''https://example.org/page'' then ''9581748591dea7ea8fe7e5ef931ee40d''
      else ''d41d8cd98f00b204e9800998ecf8427e'')"

text \<open>
  The module as it is: it imports \<open>DEFAULT_TAG\<close> only and binds \<open>normalizeTags\<close>
  nowhere. \<open>serverEnv\<close> binds the identifier to the function of server.js instead.
\<close>

definition moduleEnv :: env where
  "moduleEnv =
     \<lparr>slugize = hexoSlugize, md5hex = exampleDigest, fmParse = plainFrontMatter,
      fmStringify = (\<lambda>m content. content), parseDate = (\<lambda>v. None),
      encodeURI = (\<lambda>u. u), decodeBase64 = (\<lambda>d. d), normalizeTags = None\<rparr>"

definition serverEnv :: env where
  "serverEnv = moduleEnv\<lparr>normalizeTags := Some serverNormalizeTags\<rparr>"

definition exampleDraws :: draws where
  "exampleDraws = \<lparr>d_now = ''2024-03-09T10:11:12.000Z'', d_randomId = (\<lambda>k. ''9f86d081884c7d65'')\<rparr>"

definition emptyWorld :: world where
  "emptyWorld = \<lparr>w_sessions = Map.empty, w_files = Map.empty, w_posts = None,
                 w_refused = (\<lambda>p. False)\<rparr>"

subsection \<open>Sequences of calls\<close>

text \<open>A call of one of the operations that build a session, with what it reads from
  the clock and the random source.\<close>

datatype call =
    CreateSession draws
  | AddNote draws string "string option" "string option" bool
  | AddArchive string "string option" "string option" "string option"

fun perform :: "env \<Rightarrow> call \<Rightarrow> world \<Rightarrow> world" where
  "perform env (CreateSession dr) w = fst (createSession dr w)"
| "perform env (AddNote dr sid filename content isMain) w =
     fst (addNote env dr w sid filename content isMain)"
| "perform env (AddArchive sid sourceUrl filename data) w =
     fst (addArchive env w sid sourceUrl filename data)"

fun run :: "env \<Rightarrow> call list \<Rightarrow> world \<Rightarrow> world" where
  "run env [] w = w"
| "run env (c # cs) w = run env cs (perform env c w)"

text \<open>What \<open>buildExistingCache\<close> returns for a listing of the posts directory.\<close>

definition cacheOfPosts :: "string list option \<Rightarrow> (string \<times> string) list" where
  "cacheOfPosts posts = (case posts of None \<Rightarrow> [] | Some folders \<Rightarrow> cacheFolders [] folders)"

text \<open>The note as the dependency tracker leaves it; it depends on the note and its links
  only, not on the session.\<close>

definition noteAfter :: "env \<Rightarrow> note \<Rightarrow> wikiLink list \<Rightarrow> externalLink list \<Rightarrow> note" where
  "noteAfter env n wikiLinks externalLinks =
     snd (updateArchiveDependencies env externalLinks
            (updateWikiDependencies [] [] wikiLinks
               (\<lparr>s_id = [], s_createdAt = [], s_notes = [], s_archives = [],
                 s_pendingNotes = [], s_mainSlug = None\<rparr>, n)))"

text \<open>
  What every stored session satisfies after any sequence of calls on an empty store,
  for the cache \<open>c\<close> of the posts directory: archives are filed under their own
  identifier, which is the identifier of their URL, and list every referencing note
  once; an awaited note is neither in the session nor published; a dependency of a
  stored note is in the session, published or awaited; the main slug names a note.
\<close>

definition sessionInv :: "env \<Rightarrow> (string \<times> string) list \<Rightarrow> session \<Rightarrow> bool" where
  "sessionInv env c s \<longleftrightarrow>
     distinct (map fst (s_archives s))
     \<and> (\<forall>k a. map_of (s_archives s) k = Some a \<longrightarrow>
            a_id a = k \<and> archiveIdFromUrl env (a_url a) = k \<and> distinct (a_referencedBy a))
     \<and> (\<forall>k. k \<in> dom (map_of (s_pendingNotes s)) \<longrightarrow>
            \<not> jsHas objectPrototypeKeys (s_notes s) k \<and> findExistingFolder c k = None)
     \<and> (\<forall>k n t. map_of (s_notes s) k = Some n \<longrightarrow>
            t \<in> dom (map_of (dep_notes (n_dependencies n))) \<longrightarrow>
            jsHas objectPrototypeKeys (s_notes s) t \<or> findExistingFolder c t \<noteq> None
            \<or> t \<in> dom (map_of (s_pendingNotes s)))
     \<and> (\<forall>m. s_mainSlug s = Some m \<longrightarrow> jsHas objectPrototypeKeys (s_notes s) m)"

definition storeInv :: "env \<Rightarrow> world \<Rightarrow> bool" where
  "storeInv env w \<longleftrightarrow>
     (\<forall>f s. w_sessions w f = Some s \<longrightarrow>
        f = sessionFile (s_id s) \<and> sessionInv env (cacheOfPosts (w_posts w)) s)"

subsection \<open>A session of two notes and one archive\<close>

text \<open>
  The states below are those of one session in which note \<open>a\<close> (with a wiki link to
  \<open>B\<close> and a link to an external page) and note \<open>b\<close> (with a link to the same page)
  are uploaded, both as the main note, and the archive of the page is supplied. They
  are used to run the operations on concrete input.
\<close>

definition exampleId :: string where
  "exampleId = ''9f86d081884c7d65''"

definition bodyA :: string where
  "bodyA = ''[[B]] [x](http://example.com)''"

definition bodyB :: string where
  "bodyB = ''[y](http://example.com)''"

definition exampleMeta :: "string \<Rightarrow> meta" where
  "exampleMeta slug =
     \<lparr>m_title = slug, m_date = ''2024-03-09T10:11:12.000Z'', m_slug = slug,
      m_tags = TagsArray [''uncategorised''], m_other = []\<rparr>"

definition noteA :: "note" where
  "noteA =
     \<lparr>n_slug = ''a'', n_title = ''a'', n_date = ''2024-03-09T10:11:12.000Z'',
      n_meta = exampleMeta ''a'', n_body = bodyA,
      n_file = ''uploads/sessions/9f86d081884c7d65/notes/a.md'', n_isMain = True,
      n_dependencies =
        \<lparr>dep_notes = [(''b'', \<lparr>d_alias = ''B'', d_targetTitle = ''B''\<rparr>)],
         dep_archives = [(''a9b9f04336'', ''x'')]\<rparr>\<rparr>"

definition noteA2 :: "note" where
  "noteA2 =
     \<lparr>n_slug = ''a'', n_title = ''a'', n_date = ''2024-03-09T10:11:12.000Z'',
      n_meta = exampleMeta ''a'', n_body = ''x'',
      n_file = ''uploads/sessions/9f86d081884c7d65/notes/a.md'', n_isMain = False,
      n_dependencies = \<lparr>dep_notes = [], dep_archives = []\<rparr>\<rparr>"

definition noteB :: "note" where
  "noteB =
     \<lparr>n_slug = ''b'', n_title = ''b'', n_date = ''2024-03-09T10:11:12.000Z'',
      n_meta = exampleMeta ''b'', n_body = bodyB,
      n_file = ''uploads/sessions/9f86d081884c7d65/notes/b.md'', n_isMain = True,
      n_dependencies = \<lparr>dep_notes = [], dep_archives = [(''a9b9f04336'', ''y'')]\<rparr>\<rparr>"

definition requested :: "string list \<Rightarrow> archive" where
  "requested referencedBy =
     \<lparr>a_id = ''a9b9f04336'', a_url = ''http://example.com'', a_resolved = False,
      a_filename = None, a_filePath = None, a_referencedBy = referencedBy\<rparr>"

definition supplied :: "string list \<Rightarrow> archive" where
  "supplied referencedBy =
     \<lparr>a_id = ''a9b9f04336'', a_url = ''http://example.com'', a_resolved = True,
      a_filename = Some ''x.html'',
      a_filePath = Some ''uploads/sessions/9f86d081884c7d65/archives/a9b9f04336-x.html'',
      a_referencedBy = referencedBy\<rparr>"

definition exampleSession ::
  "(string \<times> note) list \<Rightarrow> archive list \<Rightarrow> (string \<times> pendingNoteInfo) list \<Rightarrow> string option
     \<Rightarrow> session" where
  "exampleSession notes archives pending mainSlug =
     \<lparr>s_id = exampleId, s_createdAt = ''2024-03-09T10:11:12.000Z'', s_notes = notes,
      s_archives = map (\<lambda>a. (a_id a, a)) archives, s_pendingNotes = pending,
      s_mainSlug = mainSlug\<rparr>"

definition awaitB :: "(string \<times> pendingNoteInfo) list" where
  "awaitB = [(''b'', \<lparr>p_targetTitle = ''B'', p_referencedBy = [''a'']\<rparr>)]"

definition session0 :: session where
  "session0 = exampleSession [] [] [] None"

definition sessionA :: session where
  "sessionA = exampleSession [(''a'', noteA)] [requested [''a'']] awaitB (Some ''a'')"

definition sessionAB :: session where
  "sessionAB =
     exampleSession [(''a'', noteA), (''b'', noteB)] [requested [''a'', ''b'']] [] (Some ''b'')"

definition sessionABR :: session where
  "sessionABR =
     exampleSession [(''a'', noteA), (''b'', noteB)] [supplied [''a'', ''b'']] [] (Some ''b'')"

definition sessionAA :: session where
  "sessionAA = exampleSession [(''a'', noteA2)] [requested [''a'']] awaitB (Some ''a'')"

definition sessionB :: session where
  "sessionB = exampleSession [(''b'', noteB)] [requested [''b'']] [] (Some ''b'')"

definition sessionBA :: session where
  "sessionBA =
     exampleSession [(''b'', noteB), (''a'', noteA)] [requested [''b'', ''a'']] [] (Some ''a'')"

text \<open>A world with one session file and the files written into its directory.\<close>

definition exampleWorld :: "session \<Rightarrow> (string \<times> string) list \<Rightarrow> world" where
  "exampleWorld s files =
     \<lparr>w_sessions = [sessionFile exampleId \<mapsto> s], w_files = map_of files, w_posts = None,
      w_refused = (\<lambda>p. False)\<rparr>"

definition fileA :: "string \<times> string" where
  "fileA = (''uploads/sessions/9f86d081884c7d65/notes/a.md'', bodyA)"

definition fileA2 :: "string \<times> string" where
  "fileA2 = (''uploads/sessions/9f86d081884c7d65/notes/a.md'', ''x'')"

definition fileB :: "string \<times> string" where
  "fileB = (''uploads/sessions/9f86d081884c7d65/notes/b.md'', bodyB)"

definition fileR :: "string \<times> string" where
  "fileR = (''uploads/sessions/9f86d081884c7d65/archives/a9b9f04336-x.html'', ''AAAA'')"

definition callA :: call where
  "callA = AddNote exampleDraws exampleId (Some ''a.md'') (Some bodyA) True"

definition callA2 :: call where
  "callA2 = AddNote exampleDraws exampleId (Some ''a.md'') (Some ''x'') False"

definition callB :: call where
  "callB = AddNote exampleDraws exampleId (Some ''b.md'') (Some bodyB) True"

definition callR :: call where
  "callR = AddArchive exampleId (Some ''http://example.com'') (Some ''x.html'') (Some ''AAAA'')"

section \<open>Facts about the file system model\<close>

lemma dirname_take: "\<exists>k. dirname p = take k p"
proof -
  have "dropWhile (\<lambda>c. c \<noteq> CHR ''/'') (rev p) = drop (length (takeWhile (\<lambda>c. c \<noteq> CHR ''/'') (rev p))) (rev p)"
    by (simp add: dropWhile_eq_drop)
  then have "dirname p = rev (drop (1 + length (takeWhile (\<lambda>c. c \<noteq> CHR ''/'') (rev p))) (rev p))"
    by (simp add: dirname_def)
  then show ?thesis by (metis rev_drop rev_rev_ident length_rev)
qed

lemma session_dir_not_posts:
  assumes "isPrefix sessionsRoot p"
  shows "dirname p \<noteq> postsRoot" and "\<not> isPrefix (postsRoot @ ''/'') (dirname p)"
proof -
  obtain k where k: "dirname p = take k p" using dirname_take by blast
  from assms obtain q where p: "p = CHR ''u'' # q"
    by (cases p) (auto simp: isPrefix_def sessionsRoot_def)
  have hd: "dirname p = [] \<or> hd (dirname p) = CHR ''u''"
  proof (cases k)
    case 0 then show ?thesis using k by simp
  next
    case (Suc j)
    then show ?thesis using k p by simp
  qed
  show "dirname p \<noteq> postsRoot" using hd by (auto simp: postsRoot_def)
  show "\<not> isPrefix (postsRoot @ ''/'') (dirname p)" 
  proof
    assume "isPrefix (postsRoot @ ''/'') (dirname p)"
    then have "dirname p \<noteq> [] \<and> hd (dirname p) = CHR ''p''"
      by (cases "dirname p") (auto simp: isPrefix_def postsRoot_def)
    with hd show False by auto
  qed
qed

lemma ensureDir_session:
  assumes "isPrefix sessionsRoot p"
  shows "ensureDir w (dirname p) = (if w_refused w (dirname p) then Inl (FsError ''EACCES'' (dirname p)) else Inr w)"
  using session_dir_not_posts[OF assms] by (simp add: ensureDir_def)

lemma isPrefix_append [simp]: "isPrefix p (p @ q)"
  by (simp add: isPrefix_def)

lemma prefix_notePath: "isPrefix sessionsRoot (notePath sid slug)"
  by (simp add: notePath_def sessionPath_def)
lemma prefix_archivePath: "isPrefix sessionsRoot (archivePath sid a f)"
  by (simp add: archivePath_def sessionPath_def)
lemma prefix_sessionFile: "isPrefix sessionsRoot (sessionFile sid)"
  by (simp add: sessionFile_def sessionPath_def)

lemma sessionFile_inj: "sessionFile a = sessionFile b \<longleftrightarrow> a = b"
  by (simp add: sessionFile_def sessionPath_def)

lemma loadSession_Inr: "loadSession w sid = Inr s \<longleftrightarrow> (\<not> w_refused w (sessionFile sid) \<and> w_sessions w (sessionFile sid) = Some s)"
  by (auto simp: loadSession_def readJSON_def split: option.splits)

lemma saveSession_eq:
  "saveSession w s = (if w_refused w (dirname (sessionFile (s_id s))) then Inl (FsError ''EACCES'' (dirname (sessionFile (s_id s))))
     else if w_refused w (sessionFile (s_id s)) then Inl (FsError ''EACCES'' (sessionFile (s_id s)))
     else Inr (w\<lparr>w_sessions := (w_sessions w)(sessionFile (s_id s) \<mapsto> s)\<rparr>))"
  by (simp add: saveSession_def writeJSON_def ensureDir_session[OF prefix_sessionFile])

lemma buildExistingCache_eq:
  "buildExistingCache w =
     (if w_refused w postsRoot then Inl (FsError ''EACCES'' postsRoot)
      else Inr (cacheOfPosts (w_posts w)))"
  by (simp add: buildExistingCache_def readdir_def cacheOfPosts_def split: option.splits)

section \<open>Facts about the dependency tracker\<close>

lemma jsHas_mono:
  "jsHas inh obj k \<Longrightarrow> set inh \<subseteq> set inh' \<Longrightarrow> jsHas inh' obj k"
  by (auto simp: jsHas_def)

lemma jsHas_update:
  "jsHas inh (AList.update k v obj) key \<longleftrightarrow> key = k \<or> jsHas inh obj key"
  by (auto simp: jsHas_def update_conv')

lemma ensureNoteDependency_fields [simp]:
  "s_notes (ensureNoteDependency inh s c src d) = s_notes s"
  "s_archives (ensureNoteDependency inh s c src d) = s_archives s"
  "s_mainSlug (ensureNoteDependency inh s c src d) = s_mainSlug s"
  "s_id (ensureNoteDependency inh s c src d) = s_id s"
  "s_createdAt (ensureNoteDependency inh s c src d) = s_createdAt s"
  by (simp_all add: ensureNoteDependency_def Let_def)

lemma ensureNoteDependency_pending:
  "k \<in> dom (map_of (s_pendingNotes (ensureNoteDependency inh s c src d))) \<longleftrightarrow>
     k \<in> dom (map_of (s_pendingNotes s))
     \<or> (k = wl_targetSlug d \<and> \<not> jsHas inh (s_notes s) k \<and> findExistingFolder c k = None)"
  by (auto simp: ensureNoteDependency_def Let_def update_conv')

lemma updateWikiDependencies_fields [simp]:
  "s_notes (fst (updateWikiDependencies inh c ds (s, n))) = s_notes s"
  "s_archives (fst (updateWikiDependencies inh c ds (s, n))) = s_archives s"
  "s_mainSlug (fst (updateWikiDependencies inh c ds (s, n))) = s_mainSlug s"
  "s_id (fst (updateWikiDependencies inh c ds (s, n))) = s_id s"
  "s_createdAt (fst (updateWikiDependencies inh c ds (s, n))) = s_createdAt s"
  by (induction ds arbitrary: s n; simp)+

lemma updateWikiDependencies_pending:
  "k \<in> dom (map_of (s_pendingNotes (fst (updateWikiDependencies inh c ds (s, n))))) \<longleftrightarrow>
     k \<in> dom (map_of (s_pendingNotes s))
     \<or> (k \<in> wl_targetSlug ` set ds \<and> \<not> jsHas inh (s_notes s) k \<and> findExistingFolder c k = None)"
proof (induction ds arbitrary: s n)
  case Nil
  show ?case by simp
next
  case (Cons d ds)
  show ?case
    by (simp only: updateWikiDependencies.simps Cons.IH ensureNoteDependency_pending
          ensureNoteDependency_fields) auto
qed

lemma updateWikiDependencies_note_fields [simp]:
  "n_slug (snd (updateWikiDependencies inh c ds (s, n))) = n_slug n"
  "n_title (snd (updateWikiDependencies inh c ds (s, n))) = n_title n"
  "n_date (snd (updateWikiDependencies inh c ds (s, n))) = n_date n"
  "n_meta (snd (updateWikiDependencies inh c ds (s, n))) = n_meta n"
  "n_body (snd (updateWikiDependencies inh c ds (s, n))) = n_body n"
  "n_file (snd (updateWikiDependencies inh c ds (s, n))) = n_file n"
  "n_isMain (snd (updateWikiDependencies inh c ds (s, n))) = n_isMain n"
  "dep_archives (n_dependencies (snd (updateWikiDependencies inh c ds (s, n))))
     = dep_archives (n_dependencies n)"
  by (induction ds arbitrary: s n; simp)+

lemma updateWikiDependencies_note_indep:
  "snd (updateWikiDependencies inh c ds (s, n)) = snd (updateWikiDependencies inh' c' ds (s', n))"
  by (induction ds arbitrary: s s' n) simp_all

lemma updateWikiDependencies_dep_notes:
  "k \<in> dom (map_of (dep_notes (n_dependencies (snd (updateWikiDependencies inh c ds (s, n)))))) \<longleftrightarrow>
     k \<in> dom (map_of (dep_notes (n_dependencies n))) \<or> k \<in> wl_targetSlug ` set ds"
  by (induction ds arbitrary: s n) (auto simp: update_conv')

lemma registerArchive_fields [simp]:
  "s_notes (fst (registerArchive env l sn)) = s_notes (fst sn)"
  "s_pendingNotes (fst (registerArchive env l sn)) = s_pendingNotes (fst sn)"
  "s_mainSlug (fst (registerArchive env l sn)) = s_mainSlug (fst sn)"
  "s_id (fst (registerArchive env l sn)) = s_id (fst sn)"
  "s_createdAt (fst (registerArchive env l sn)) = s_createdAt (fst sn)"
  "n_slug (snd (registerArchive env l sn)) = n_slug (snd sn)"
  "n_title (snd (registerArchive env l sn)) = n_title (snd sn)"
  "n_date (snd (registerArchive env l sn)) = n_date (snd sn)"
  "n_meta (snd (registerArchive env l sn)) = n_meta (snd sn)"
  "n_body (snd (registerArchive env l sn)) = n_body (snd sn)"
  "n_file (snd (registerArchive env l sn)) = n_file (snd sn)"
  "n_isMain (snd (registerArchive env l sn)) = n_isMain (snd sn)"
  "dep_notes (n_dependencies (snd (registerArchive env l sn))) = dep_notes (n_dependencies (snd sn))"
  by (simp_all add: registerArchive_def Let_def)

lemma registerArchive_note_indep:
  "snd (registerArchive env l (s, n)) = snd (registerArchive env l (s', n))"
  by (simp add: registerArchive_def Let_def)

lemma registerArchive_other:
  "k \<noteq> archiveIdFromUrl env (el_url l) \<Longrightarrow>
     map_of (s_archives (fst (registerArchive env l sn))) k = map_of (s_archives (fst sn)) k"
  by (simp add: registerArchive_def Let_def update_conv')

lemma registerArchive_new:
  "map_of (s_archives (fst sn)) (archiveIdFromUrl env (el_url l)) = None \<Longrightarrow>
     map_of (s_archives (fst (registerArchive env l sn))) (archiveIdFromUrl env (el_url l))
       = Some \<lparr>a_id = archiveIdFromUrl env (el_url l), a_url = el_url l, a_resolved = False,
               a_filename = None, a_filePath = None, a_referencedBy = [n_slug (snd sn)]\<rparr>"
  by (simp add: registerArchive_def Let_def update_conv')

lemma registerArchive_old:
  "map_of (s_archives (fst sn)) (archiveIdFromUrl env (el_url l)) = Some a \<Longrightarrow>
     map_of (s_archives (fst (registerArchive env l sn))) (archiveIdFromUrl env (el_url l))
       = Some (if n_slug (snd sn) \<in> set (a_referencedBy a) then a
               else a\<lparr>a_referencedBy := a_referencedBy a @ [n_slug (snd sn)]\<rparr>)"
  by (simp add: registerArchive_def Let_def update_conv')

lemma registerArchive_distinct_keys:
  "distinct (map fst (s_archives (fst sn))) \<Longrightarrow>
     distinct (map fst (s_archives (fst (registerArchive env l sn))))"
  by (simp add: registerArchive_def Let_def distinct_update)

lemma updateArchiveDependencies_fields [simp]:
  "s_notes (fst (updateArchiveDependencies env l sn)) = s_notes (fst sn)"
  "s_pendingNotes (fst (updateArchiveDependencies env l sn)) = s_pendingNotes (fst sn)"
  "s_mainSlug (fst (updateArchiveDependencies env l sn)) = s_mainSlug (fst sn)"
  "s_id (fst (updateArchiveDependencies env l sn)) = s_id (fst sn)"
  "s_createdAt (fst (updateArchiveDependencies env l sn)) = s_createdAt (fst sn)"
  "n_slug (snd (updateArchiveDependencies env l sn)) = n_slug (snd sn)"
  "n_title (snd (updateArchiveDependencies env l sn)) = n_title (snd sn)"
  "n_date (snd (updateArchiveDependencies env l sn)) = n_date (snd sn)"
  "n_meta (snd (updateArchiveDependencies env l sn)) = n_meta (snd sn)"
  "n_body (snd (updateArchiveDependencies env l sn)) = n_body (snd sn)"
  "n_file (snd (updateArchiveDependencies env l sn)) = n_file (snd sn)"
  "n_isMain (snd (updateArchiveDependencies env l sn)) = n_isMain (snd sn)"
  "dep_notes (n_dependencies (snd (updateArchiveDependencies env l sn))) = dep_notes (n_dependencies (snd sn))"
  by (induction l arbitrary: sn; simp)+

lemma updateArchiveDependencies_note_indep:
  "snd (updateArchiveDependencies env ls (s, n)) = snd (updateArchiveDependencies env ls (s', n))"
proof (induction ls arbitrary: s s' n)
  case Nil
  show ?case by simp
next
  case (Cons l ls)
  have "snd (registerArchive env l (s, n)) = snd (registerArchive env l (s', n))"
    by (rule registerArchive_note_indep)
  then show ?case
    using Cons.IH [of "fst (registerArchive env l (s, n))" "snd (registerArchive env l (s, n))"
                      "fst (registerArchive env l (s', n))"]
    by (metis prod.collapse updateArchiveDependencies.simps(2))
qed

lemma updateArchiveDependencies_distinct_keys:
  "distinct (map fst (s_archives (fst sn))) \<Longrightarrow>
     distinct (map fst (s_archives (fst (updateArchiveDependencies env ls sn))))"
  by (induction ls arbitrary: sn) (simp_all add: registerArchive_distinct_keys)

lemma updateArchiveDependencies_old:
  "map_of (s_archives (fst sn)) k = Some a \<Longrightarrow>
     map_of (s_archives (fst (updateArchiveDependencies env ls sn))) k
       = Some (if k \<in> (\<lambda>l. archiveIdFromUrl env (el_url l)) ` set ls
                  \<and> n_slug (snd sn) \<notin> set (a_referencedBy a)
               then a\<lparr>a_referencedBy := a_referencedBy a @ [n_slug (snd sn)]\<rparr> else a)"
proof (induction ls arbitrary: sn a)
  case Nil
  then show ?case by simp
next
  case (Cons l ls)
  show ?case
  proof (cases "k = archiveIdFromUrl env (el_url l)")
    case True
    let ?a1 = "if n_slug (snd sn) \<in> set (a_referencedBy a) then a
               else a\<lparr>a_referencedBy := a_referencedBy a @ [n_slug (snd sn)]\<rparr>"
    have "map_of (s_archives (fst (registerArchive env l sn))) k = Some ?a1"
      using Cons.prems True registerArchive_old by simp
    from Cons.IH [OF this] show ?thesis using True by simp
  next
    case False
    have "map_of (s_archives (fst (registerArchive env l sn))) k = Some a"
      using Cons.prems False registerArchive_other by simp
    from Cons.IH [OF this] show ?thesis using False by simp
  qed
qed

lemma updateArchiveDependencies_none:
  "map_of (s_archives (fst sn)) k = None \<Longrightarrow>
   k \<notin> (\<lambda>l. archiveIdFromUrl env (el_url l)) ` set ls \<Longrightarrow>
     map_of (s_archives (fst (updateArchiveDependencies env ls sn))) k = None"
  by (induction ls arbitrary: sn) (simp_all add: registerArchive_other)

lemma updateArchiveDependencies_new:
  "map_of (s_archives (fst sn)) k = None \<Longrightarrow>
   k \<in> (\<lambda>l. archiveIdFromUrl env (el_url l)) ` set ls \<Longrightarrow>
     \<exists>u. u \<in> el_url ` set ls \<and> archiveIdFromUrl env u = k
       \<and> map_of (s_archives (fst (updateArchiveDependencies env ls sn))) k
           = Some \<lparr>a_id = k, a_url = u, a_resolved = False, a_filename = None,
                   a_filePath = None, a_referencedBy = [n_slug (snd sn)]\<rparr>"
proof (induction ls arbitrary: sn)
  case Nil
  then show ?case by simp
next
  case (Cons l ls)
  show ?case
  proof (cases "k = archiveIdFromUrl env (el_url l)")
    case True
    let ?a1 = "\<lparr>a_id = k, a_url = el_url l, a_resolved = False, a_filename = None,
                a_filePath = None, a_referencedBy = [n_slug (snd sn)]\<rparr>"
    have "map_of (s_archives (fst (registerArchive env l sn))) k = Some ?a1"
      using Cons.prems(1) True registerArchive_new by simp
    from updateArchiveDependencies_old [OF this, of env ls]
    have "map_of (s_archives (fst (updateArchiveDependencies env (l # ls) sn))) k = Some ?a1"
      by simp
    then show ?thesis using True by auto
  next
    case False
    have 1: "map_of (s_archives (fst (registerArchive env l sn))) k = None"
      using Cons.prems(1) False registerArchive_other by simp
    have 2: "k \<in> (\<lambda>l. archiveIdFromUrl env (el_url l)) ` set ls"
      using Cons.prems(2) False by auto
    from Cons.IH [OF 1 2] show ?thesis by auto
  qed
qed

lemma updateArchiveDependencies_resolved:
  "map_option a_resolved (map_of (s_archives (fst (updateArchiveDependencies env ls sn))) k)
     = (case map_of (s_archives (fst sn)) k of
          Some a \<Rightarrow> Some (a_resolved a)
        | None \<Rightarrow> if k \<in> (\<lambda>l. archiveIdFromUrl env (el_url l)) ` set ls then Some False
                  else None)"
proof (cases "map_of (s_archives (fst sn)) k")
  case None
  show ?thesis
  proof (cases "k \<in> (\<lambda>l. archiveIdFromUrl env (el_url l)) ` set ls")
    case True
    from updateArchiveDependencies_new [OF None True] show ?thesis
      using None True by auto
  next
    case False
    from updateArchiveDependencies_none [OF None False] show ?thesis
      using None False by simp
  qed
next
  case (Some a)
  from updateArchiveDependencies_old [OF Some, of env ls] show ?thesis
    using Some by simp
qed

section \<open>Facts about registering a note\<close>

lemma proto_in_objectPrototypeKeys: "''__proto__'' \<in> set objectPrototypeKeys"
  by (simp add: objectPrototypeKeys_def)

lemma inheritedAfter_super: "set objectPrototypeKeys \<subseteq> set (inheritedAfter n)"
  by (simp add: inheritedAfter_def)

lemma inheritedAfter_plain: "n_slug n \<noteq> ''__proto__'' \<Longrightarrow> inheritedAfter n = objectPrototypeKeys"
  by (simp add: inheritedAfter_def)

lemma map_of_storeNote:
  "map_of (storeNote n notes) k
     = (if n_slug n \<noteq> ''__proto__'' \<and> k = n_slug n then Some n else map_of notes k)"
  by (simp add: storeNote_def update_conv')

lemma jsHas_storeNote:
  "set objectPrototypeKeys \<subseteq> set inh \<Longrightarrow>
     jsHas inh (storeNote n notes) k \<longleftrightarrow> k = n_slug n \<or> jsHas inh notes k"
  using proto_in_objectPrototypeKeys by (auto simp: jsHas_def map_of_storeNote)

lemma storeNote_distinct_keys:
  "distinct (map fst notes) \<Longrightarrow> distinct (map fst (storeNote n notes))"
  by (simp add: storeNote_def distinct_update)

lemma updateNoteDependencies_fields [simp]:
  "s_notes (fst (updateNoteDependencies env inh s n wl el c)) = s_notes s"
  "s_mainSlug (fst (updateNoteDependencies env inh s n wl el c)) = s_mainSlug s"
  "s_id (fst (updateNoteDependencies env inh s n wl el c)) = s_id s"
  "s_createdAt (fst (updateNoteDependencies env inh s n wl el c)) = s_createdAt s"
  "n_slug (snd (updateNoteDependencies env inh s n wl el c)) = n_slug n"
  "n_title (snd (updateNoteDependencies env inh s n wl el c)) = n_title n"
  "n_date (snd (updateNoteDependencies env inh s n wl el c)) = n_date n"
  "n_meta (snd (updateNoteDependencies env inh s n wl el c)) = n_meta n"
  "n_body (snd (updateNoteDependencies env inh s n wl el c)) = n_body n"
  "n_file (snd (updateNoteDependencies env inh s n wl el c)) = n_file n"
  "n_isMain (snd (updateNoteDependencies env inh s n wl el c)) = n_isMain n"
  by (simp_all add: updateNoteDependencies_def)

lemma updateNoteDependencies_note:
  "snd (updateNoteDependencies env inh s n wl el c) = noteAfter env n wl el"
proof -
  let ?e = "\<lparr>s_id = [], s_createdAt = [], s_notes = [], s_archives = [],
             s_pendingNotes = [], s_mainSlug = None\<rparr>"
  have "snd (updateWikiDependencies inh c wl (s, n)) = snd (updateWikiDependencies [] [] wl (?e, n))"
    by (rule updateWikiDependencies_note_indep)
  then show ?thesis
    unfolding updateNoteDependencies_def noteAfter_def
    by (metis prod.collapse updateArchiveDependencies_note_indep)
qed

lemma noteAfter_fields [simp]:
  "n_slug (noteAfter env n wl el) = n_slug n"
  "n_title (noteAfter env n wl el) = n_title n"
  "n_date (noteAfter env n wl el) = n_date n"
  "n_meta (noteAfter env n wl el) = n_meta n"
  "n_body (noteAfter env n wl el) = n_body n"
  "n_file (noteAfter env n wl el) = n_file n"
  "n_isMain (noteAfter env n wl el) = n_isMain n"
  by (simp_all add: noteAfter_def)

lemma noteAfter_dep_notes:
  "k \<in> dom (map_of (dep_notes (n_dependencies (noteAfter env n wl el)))) \<longleftrightarrow>
     k \<in> dom (map_of (dep_notes (n_dependencies n))) \<or> k \<in> wl_targetSlug ` set wl"
  by (simp add: noteAfter_def updateWikiDependencies_dep_notes)

lemma updateNoteDependencies_pending:
  "k \<in> dom (map_of (s_pendingNotes (fst (updateNoteDependencies env inh s n wl el c)))) \<longleftrightarrow>
     k \<in> dom (map_of (s_pendingNotes s))
     \<or> (k \<in> wl_targetSlug ` set wl \<and> \<not> jsHas inh (s_notes s) k \<and> findExistingFolder c k = None)"
  by (simp add: updateNoteDependencies_def updateWikiDependencies_pending)

lemma registerNote_fields [simp]:
  "s_id (registerNote env s n isMain wl el c) = s_id s"
  "s_createdAt (registerNote env s n isMain wl el c) = s_createdAt s"
  "s_mainSlug (registerNote env s n isMain wl el c) = (if isMain then Some (n_slug n) else s_mainSlug s)"
  by (simp_all add: registerNote_def Let_def)

lemma registerNote_notes:
  "map_of (s_notes (registerNote env s n isMain wl el c)) k
     = (if n_slug n \<noteq> ''__proto__'' \<and> k = n_slug n then Some (noteAfter env n wl el)
        else map_of (s_notes s) k)"
  by (simp add: registerNote_def Let_def map_of_storeNote updateNoteDependencies_note)

lemma registerNote_jsHas:
  "jsHas objectPrototypeKeys (s_notes (registerNote env s n isMain wl el c)) k \<longleftrightarrow>
     k = n_slug n \<or> jsHas objectPrototypeKeys (s_notes s) k"
  by (simp add: registerNote_def Let_def jsHas_storeNote updateNoteDependencies_note)

lemma registerNote_pending:
  "k \<in> dom (map_of (s_pendingNotes (registerNote env s n isMain wl el c))) \<longleftrightarrow>
     (k \<noteq> n_slug n \<and> k \<in> dom (map_of (s_pendingNotes s)))
     \<or> (k \<in> wl_targetSlug ` set wl \<and> k \<noteq> n_slug n
        \<and> \<not> jsHas (inheritedAfter n) (s_notes s) k \<and> findExistingFolder c k = None)"
  by (auto simp: registerNote_def Let_def updateNoteDependencies_pending delete_conv'
        jsHas_storeNote inheritedAfter_super)

lemma updateArchiveDependencies_cong:
  "s_archives (fst sn) = s_archives (fst sn') \<Longrightarrow> n_slug (snd sn) = n_slug (snd sn') \<Longrightarrow>
     s_archives (fst (updateArchiveDependencies env el sn))
       = s_archives (fst (updateArchiveDependencies env el sn'))"
proof (induction el arbitrary: sn sn')
  case Nil
  then show ?case by simp
next
  case (Cons l ls)
  have "s_archives (fst (registerArchive env l sn)) = s_archives (fst (registerArchive env l sn'))"
       "n_slug (snd (registerArchive env l sn)) = n_slug (snd (registerArchive env l sn'))"
    using Cons.prems by (simp_all add: registerArchive_def Let_def)
  from Cons.IH [OF this] show ?case by simp
qed

lemma registerNote_archives:
  "s_archives (registerNote env s n isMain wl el c)
     = s_archives (fst (updateArchiveDependencies env el (s, n)))"
proof -
  have "s_archives (registerNote env s n isMain wl el c)
          = s_archives (fst (updateArchiveDependencies env el
              (updateWikiDependencies (inheritedAfter n) c wl
                 ((if isMain then s\<lparr>s_notes := storeNote n (s_notes s), s_mainSlug := Some (n_slug n)\<rparr>
                   else s\<lparr>s_notes := storeNote n (s_notes s)\<rparr>)
                  \<lparr>s_pendingNotes := AList.delete (n_slug n) (s_pendingNotes s)\<rparr>, n))))"
    by (simp add: registerNote_def Let_def updateNoteDependencies_def)
  also have "\<dots> = s_archives (fst (updateArchiveDependencies env el (s, n)))"
    by (rule updateArchiveDependencies_cong) simp_all
  finally show ?thesis .
qed

lemma registerNote_archives_old:
  "map_of (s_archives s) k = Some a \<Longrightarrow>
     map_of (s_archives (registerNote env s n isMain wl el c)) k
       = Some (if k \<in> (\<lambda>l. archiveIdFromUrl env (el_url l)) ` set el
                  \<and> n_slug n \<notin> set (a_referencedBy a)
               then a\<lparr>a_referencedBy := a_referencedBy a @ [n_slug n]\<rparr> else a)"
  using updateArchiveDependencies_old [of "(s, n)" k a env el]
  by (simp add: registerNote_archives)

lemma registerNote_archives_new:
  "map_of (s_archives s) k = None \<Longrightarrow>
   k \<in> (\<lambda>l. archiveIdFromUrl env (el_url l)) ` set el \<Longrightarrow>
     \<exists>u. u \<in> el_url ` set el \<and> archiveIdFromUrl env u = k
       \<and> map_of (s_archives (registerNote env s n isMain wl el c)) k
           = Some \<lparr>a_id = k, a_url = u, a_resolved = False, a_filename = None,
                   a_filePath = None, a_referencedBy = [n_slug n]\<rparr>"
  using updateArchiveDependencies_new [of "(s, n)" k env el]
  by (simp add: registerNote_archives)

lemma registerNote_archives_none:
  "map_of (s_archives s) k = None \<Longrightarrow>
   k \<notin> (\<lambda>l. archiveIdFromUrl env (el_url l)) ` set el \<Longrightarrow>
     map_of (s_archives (registerNote env s n isMain wl el c)) k = None"
  using updateArchiveDependencies_none [of "(s, n)" k env el]
  by (simp add: registerNote_archives)

lemma registerNote_resolved:
  "map_option a_resolved (map_of (s_archives (registerNote env s n isMain wl el c)) k)
     = (case map_of (s_archives s) k of
          Some a \<Rightarrow> Some (a_resolved a)
        | None \<Rightarrow> if k \<in> (\<lambda>l. archiveIdFromUrl env (el_url l)) ` set el then Some False
                  else None)"
  using updateArchiveDependencies_resolved [of env el "(s, n)" k]
  by (simp add: registerNote_archives)

lemma registerNote_distinct_archives:
  "distinct (map fst (s_archives s)) \<Longrightarrow>
     distinct (map fst (s_archives (registerNote env s n isMain wl el c)))"
  using updateArchiveDependencies_distinct_keys [of "(s, n)" env el]
  by (simp add: registerNote_archives)

section \<open>Facts about the operations\<close>

lemma addNote_InrD:
  assumes "addNote env dr w sid filename content isMain = (w', Inr r)"
  obtains s meta body nt n where
    "truthy filename" and "truthy content"
    and "loadSession w sid = Inr s"
    and "\<not> w_refused w postsRoot"
    and "parseMarkdown env dr (the content) (the filename) = Inr (meta, body)"
    and "normalizeTags env = Some nt"
    and "n = newNote (meta\<lparr>m_tags := TagsArray (nt (m_tags meta))\<rparr>) body
               (notePath sid (m_slug meta)) isMain"
    and "w' = w\<lparr>w_files := (w_files w)(notePath sid (m_slug meta) \<mapsto> the content),
                w_sessions := (w_sessions w)(sessionFile (s_id s) \<mapsto>
                   registerNote env s n isMain (extractWikiLinks env dr body)
                     (extractExternalLinks body) (cacheOfPosts (w_posts w)))\<rparr>"
    and "summarizeSession w' (inheritedAfter n)
           (registerNote env s n isMain (extractWikiLinks env dr body)
              (extractExternalLinks body) (cacheOfPosts (w_posts w))) = Inr r"
  using assms
  by (auto simp: addNote_def Let_def ensureDir_session prefix_notePath writeFile_def
        saveSession_eq buildExistingCache_eq
      split: if_splits sum.splits option.splits prod.splits)

lemma summarizeSession_Inl:
  "summarizeSession w inh s = Inl e \<Longrightarrow> w_refused w postsRoot"
  by (simp add: summarizeSession_def buildExistingCache_eq split: if_splits)

lemma addNote_fst:
  "w_posts (fst (addNote env dr w sid filename content isMain)) = w_posts w"
  "w_refused (fst (addNote env dr w sid filename content isMain)) = w_refused w"
  by (auto simp: addNote_def Let_def ensureDir_session prefix_notePath writeFile_def
        saveSession_eq buildExistingCache_eq
      split: if_splits sum.splits option.splits prod.splits)

lemma addNote_Inl_sessions:
  assumes "snd (addNote env dr w sid filename content isMain) = Inl e"
  shows "w_sessions (fst (addNote env dr w sid filename content isMain)) = w_sessions w"
  using assms
  by (auto simp: addNote_def Let_def ensureDir_session prefix_notePath writeFile_def
        saveSession_eq buildExistingCache_eq dest: summarizeSession_Inl
      split: if_splits sum.splits option.splits prod.splits)

lemma addNote_sessions:
  assumes "w_sessions (fst (addNote env dr w sid filename content isMain)) f = Some s'"
  shows "w_sessions w f = Some s'
       \<or> (\<exists>s n wl el. w_sessions w (sessionFile sid) = Some s
             \<and> dep_notes (n_dependencies n) = [] \<and> f = sessionFile (s_id s)
             \<and> s' = registerNote env s n isMain wl el (cacheOfPosts (w_posts w)))"
proof (cases "snd (addNote env dr w sid filename content isMain)")
  case (Inl e)
  then have "w_sessions (fst (addNote env dr w sid filename content isMain)) = w_sessions w"
    by (rule addNote_Inl_sessions)
  with assms show ?thesis by simp
next
  case (Inr r)
  then have eq: "addNote env dr w sid filename content isMain
               = (fst (addNote env dr w sid filename content isMain), Inr r)"
    by (simp add: prod_eq_iff)
  show ?thesis
  proof (rule addNote_InrD [OF eq])
    fix s meta body nt n
    assume l: "loadSession w sid = Inr s"
      and n: "n = newNote (meta\<lparr>m_tags := TagsArray (nt (m_tags meta))\<rparr>) body
                 (notePath sid (m_slug meta)) isMain"
      and w': "fst (addNote env dr w sid filename content isMain)
              = w\<lparr>w_files := (w_files w)(notePath sid (m_slug meta) \<mapsto> the content),
                  w_sessions := (w_sessions w)(sessionFile (s_id s) \<mapsto>
                     registerNote env s n isMain (extractWikiLinks env dr body)
                       (extractExternalLinks body) (cacheOfPosts (w_posts w)))\<rparr>"
    have d: "dep_notes (n_dependencies n) = []" by (simp add: n newNote_def)
    from l have ws: "w_sessions w (sessionFile sid) = Some s" by (simp add: loadSession_Inr)
    have ws': "w_sessions (fst (addNote env dr w sid filename content isMain))
               = (w_sessions w)(sessionFile (s_id s) \<mapsto>
                     registerNote env s n isMain (extractWikiLinks env dr body)
                       (extractExternalLinks body) (cacheOfPosts (w_posts w)))"
      by (simp add: w')
    show ?thesis
    proof (cases "f = sessionFile (s_id s)")
      case True
      with assms ws' have "s' = registerNote env s n isMain (extractWikiLinks env dr body)
                       (extractExternalLinks body) (cacheOfPosts (w_posts w))"
        by simp
      with True ws d have "w_sessions w (sessionFile sid) = Some s
             \<and> dep_notes (n_dependencies n) = [] \<and> f = sessionFile (s_id s)
             \<and> s' = registerNote env s n isMain (extractWikiLinks env dr body)
                       (extractExternalLinks body) (cacheOfPosts (w_posts w))"
        by simp
      then have "\<exists>s n wl el. w_sessions w (sessionFile sid) = Some s
             \<and> dep_notes (n_dependencies n) = [] \<and> f = sessionFile (s_id s)
             \<and> s' = registerNote env s n isMain wl el (cacheOfPosts (w_posts w))"
        by (intro exI)
      then show ?thesis by (rule disjI2)
    next
      case False
      with assms ws' show ?thesis by simp
    qed
  qed
qed

lemma addArchive_InrD:
  assumes "addArchive env w sid sourceUrl filename data = (w', Inr r)"
  obtains s a where
    "truthy sourceUrl" and "truthy filename" and "truthy data"
    and "loadSession w sid = Inr s"
    and "map_of (s_archives s) (archiveIdFromUrl env (the sourceUrl)) = Some a"
    and "w' = w\<lparr>w_files := (w_files w)(archivePath sid (archiveIdFromUrl env (the sourceUrl))
                     (the filename) \<mapsto> decodeBase64 env (stripDataUri (the data))),
                w_sessions := (w_sessions w)(sessionFile (s_id s) \<mapsto>
                   s\<lparr>s_archives := AList.update (archiveIdFromUrl env (the sourceUrl))
                        (a\<lparr>a_resolved := True, a_filename := filename,
                           a_filePath := Some (archivePath sid
                              (archiveIdFromUrl env (the sourceUrl)) (the filename))\<rparr>)
                        (s_archives s)\<rparr>)\<rparr>"
    and "summarizeSession w' objectPrototypeKeys
           (s\<lparr>s_archives := AList.update (archiveIdFromUrl env (the sourceUrl))
                        (a\<lparr>a_resolved := True, a_filename := filename,
                           a_filePath := Some (archivePath sid
                              (archiveIdFromUrl env (the sourceUrl)) (the filename))\<rparr>)
                        (s_archives s)\<rparr>) = Inr r"
  using assms
  by (auto simp: addArchive_def Let_def ensureDir_session prefix_archivePath writeFile_def
        saveSession_eq
      split: if_splits sum.splits option.splits prod.splits)

lemma addArchive_fst:
  "w_posts (fst (addArchive env w sid sourceUrl filename data)) = w_posts w"
  "w_refused (fst (addArchive env w sid sourceUrl filename data)) = w_refused w"
  by (auto simp: addArchive_def Let_def ensureDir_session prefix_archivePath writeFile_def
        saveSession_eq
      split: if_splits sum.splits option.splits prod.splits)

lemma addArchive_sessions_the:
  "w_sessions (fst (addArchive env w sid sourceUrl filename data)) = w_sessions w
   \<or> (w_sessions w (sessionFile sid) \<noteq> None
      \<and> map_of (s_archives (the (w_sessions w (sessionFile sid))))
            (archiveIdFromUrl env (the sourceUrl)) \<noteq> None
      \<and> w_sessions (fst (addArchive env w sid sourceUrl filename data))
          = (w_sessions w)(sessionFile (s_id (the (w_sessions w (sessionFile sid)))) \<mapsto>
              (the (w_sessions w (sessionFile sid)))
                \<lparr>s_archives := AList.update (archiveIdFromUrl env (the sourceUrl))
                   ((the (map_of (s_archives (the (w_sessions w (sessionFile sid))))
                            (archiveIdFromUrl env (the sourceUrl))))
                      \<lparr>a_resolved := True, a_filename := filename,
                       a_filePath := Some (archivePath sid
                          (archiveIdFromUrl env (the sourceUrl)) (the filename))\<rparr>)
                   (s_archives (the (w_sessions w (sessionFile sid))))\<rparr>))"
  by (auto simp: addArchive_def Let_def ensureDir_session prefix_archivePath writeFile_def
        saveSession_eq loadSession_Inr
      split: if_splits sum.splits option.splits prod.splits)

lemma addArchive_sessions:
  assumes "w_sessions (fst (addArchive env w sid sourceUrl filename data)) f = Some s'"
  shows "w_sessions w f = Some s'
       \<or> (\<exists>s a fn fp. w_sessions w (sessionFile sid) = Some s
             \<and> map_of (s_archives s) (archiveIdFromUrl env (the sourceUrl)) = Some a
             \<and> f = sessionFile (s_id s)
             \<and> s' = s\<lparr>s_archives := AList.update (archiveIdFromUrl env (the sourceUrl))
                        (a\<lparr>a_resolved := True, a_filename := fn, a_filePath := fp\<rparr>)
                        (s_archives s)\<rparr>)"
proof -
  let ?w' = "fst (addArchive env w sid sourceUrl filename data)"
  from addArchive_sessions_the [of env w sid sourceUrl filename data]
  show ?thesis
  proof
    assume "w_sessions ?w' = w_sessions w"
    with assms show ?thesis by simp
  next
    assume h: "w_sessions w (sessionFile sid) \<noteq> None
      \<and> map_of (s_archives (the (w_sessions w (sessionFile sid))))
            (archiveIdFromUrl env (the sourceUrl)) \<noteq> None
      \<and> w_sessions ?w'
          = (w_sessions w)(sessionFile (s_id (the (w_sessions w (sessionFile sid)))) \<mapsto>
              (the (w_sessions w (sessionFile sid)))
                \<lparr>s_archives := AList.update (archiveIdFromUrl env (the sourceUrl))
                   ((the (map_of (s_archives (the (w_sessions w (sessionFile sid))))
                            (archiveIdFromUrl env (the sourceUrl))))
                      \<lparr>a_resolved := True, a_filename := filename,
                       a_filePath := Some (archivePath sid
                          (archiveIdFromUrl env (the sourceUrl)) (the filename))\<rparr>)
                   (s_archives (the (w_sessions w (sessionFile sid))))\<rparr>)"
    then have "w_sessions w (sessionFile sid) \<noteq> None" by (rule conjunct1)
    then obtain s where 1: "w_sessions w (sessionFile sid) = Some s" by auto
    from h have "map_of (s_archives (the (w_sessions w (sessionFile sid))))
            (archiveIdFromUrl env (the sourceUrl)) \<noteq> None"
      by (rule conjunct2 [THEN conjunct1])
    with 1 obtain a where
      2: "map_of (s_archives s) (archiveIdFromUrl env (the sourceUrl)) = Some a" by auto
    from h [THEN conjunct2, THEN conjunct2] 1 2 have 3: "w_sessions ?w'
          = (w_sessions w)(sessionFile (s_id s) \<mapsto>
              s\<lparr>s_archives := AList.update (archiveIdFromUrl env (the sourceUrl))
                   (a\<lparr>a_resolved := True, a_filename := filename,
                       a_filePath := Some (archivePath sid
                          (archiveIdFromUrl env (the sourceUrl)) (the filename))\<rparr>)
                   (s_archives s)\<rparr>)"
      by simp
    show ?thesis
    proof (cases "f = sessionFile (s_id s)")
      case True
      with assms 3 have "s' = s\<lparr>s_archives := AList.update (archiveIdFromUrl env (the sourceUrl))
                   (a\<lparr>a_resolved := True, a_filename := filename,
                       a_filePath := Some (archivePath sid
                          (archiveIdFromUrl env (the sourceUrl)) (the filename))\<rparr>)
                   (s_archives s)\<rparr>"
        by simp
      with True 1 2 have "w_sessions w (sessionFile sid) = Some s
             \<and> map_of (s_archives s) (archiveIdFromUrl env (the sourceUrl)) = Some a
             \<and> f = sessionFile (s_id s)
             \<and> s' = s\<lparr>s_archives := AList.update (archiveIdFromUrl env (the sourceUrl))
                   (a\<lparr>a_resolved := True, a_filename := filename,
                       a_filePath := Some (archivePath sid
                          (archiveIdFromUrl env (the sourceUrl)) (the filename))\<rparr>)
                   (s_archives s)\<rparr>"
        by simp
      then have "\<exists>s a fn fp. w_sessions w (sessionFile sid) = Some s
             \<and> map_of (s_archives s) (archiveIdFromUrl env (the sourceUrl)) = Some a
             \<and> f = sessionFile (s_id s)
             \<and> s' = s\<lparr>s_archives := AList.update (archiveIdFromUrl env (the sourceUrl))
                        (a\<lparr>a_resolved := True, a_filename := fn, a_filePath := fp\<rparr>)
                        (s_archives s)\<rparr>"
        by (intro exI)
      then show ?thesis by (rule disjI2)
    next
      case False
      with assms 3 show ?thesis by simp
    qed
  qed
qed

lemma createSession_fst:
  "w_posts (fst (createSession dr w)) = w_posts w"
  "w_refused (fst (createSession dr w)) = w_refused w"
  by (auto simp: createSession_def Let_def sessionPath_def ensureDir_def saveSession_eq
        isPrefix_def sessionsRoot_def postsRoot_def
      split: if_splits sum.splits)

lemma createSession_sessions:
  assumes "w_sessions (fst (createSession dr w)) f = Some s'"
  shows "w_sessions w f = Some s'
       \<or> (f = sessionFile (s_id s') \<and> s' = defaultSession dr (d_randomId dr 0))"
  using assms
  by (auto simp: createSession_def Let_def sessionPath_def ensureDir_def saveSession_eq
        isPrefix_def sessionsRoot_def postsRoot_def defaultSession_def
      split: if_splits sum.splits)


lemma addNote_ok:
  assumes "truthy filename" and "truthy content"
    and "loadSession w sid = Inr s"
    and "\<not> w_refused w postsRoot"
    and "parseMarkdown env dr (the content) (the filename) = Inr (meta, body)"
    and "\<not> w_refused w (dirname (notePath sid (m_slug meta)))"
    and "\<not> w_refused w (notePath sid (m_slug meta))"
    and "normalizeTags env = Some nt"
    and "\<not> w_refused w (dirname (sessionFile (s_id s)))"
    and "\<not> w_refused w (sessionFile (s_id s))"
    and "n = newNote (meta\<lparr>m_tags := TagsArray (nt (m_tags meta))\<rparr>) body
               (notePath sid (m_slug meta)) isMain"
    and "s' = registerNote env s n isMain (extractWikiLinks env dr body)
                (extractExternalLinks body) (cacheOfPosts (w_posts w))"
    and "w' = w\<lparr>w_files := (w_files w)(notePath sid (m_slug meta) \<mapsto> the content),
                w_sessions := (w_sessions w)(sessionFile (s_id s) \<mapsto> s')\<rparr>"
  shows "addNote env dr w sid filename content isMain
           = (w', summarizeSession w' (inheritedAfter n) s')"
  using assms
  by (simp add: addNote_def Let_def ensureDir_session prefix_notePath writeFile_def
        saveSession_eq buildExistingCache_eq)

lemma summarizeSession_ok:
  "\<not> w_refused w postsRoot \<Longrightarrow>
     summarizeSession w inh s = Inr (projr (summarizeSession w inh s))"
  by (simp add: summarizeSession_def buildExistingCache_eq Let_def)

lemma addArchive_missing:
  "\<not> truthy sourceUrl \<or> \<not> truthy filename \<or> \<not> truthy data \<Longrightarrow>
     addArchive env w sid sourceUrl filename data
       = (w, Inl (Error ''Archive upload requires url, filename and data''))"
  by (auto simp: addArchive_def)

lemma addArchive_not_requested:
  "truthy sourceUrl \<Longrightarrow> truthy filename \<Longrightarrow> truthy data \<Longrightarrow>
   loadSession w sid = Inr s \<Longrightarrow>
   map_of (s_archives s) (archiveIdFromUrl env (the sourceUrl)) = None \<Longrightarrow>
     addArchive env w sid sourceUrl filename data = (w, Inl (Error ''Archive was not requested''))"
  by (simp add: addArchive_def Let_def)

lemma addArchive_ok:
  assumes "truthy sourceUrl" and "truthy filename" and "truthy data"
    and "loadSession w sid = Inr s"
    and "map_of (s_archives s) (archiveIdFromUrl env (the sourceUrl)) = Some a"
    and "\<not> w_refused w (dirname (archivePath sid (archiveIdFromUrl env (the sourceUrl)) (the filename)))"
    and "\<not> w_refused w (archivePath sid (archiveIdFromUrl env (the sourceUrl)) (the filename))"
    and "\<not> w_refused w (dirname (sessionFile (s_id s)))"
    and "\<not> w_refused w (sessionFile (s_id s))"
    and "s' = s\<lparr>s_archives := AList.update (archiveIdFromUrl env (the sourceUrl))
                 (a\<lparr>a_resolved := True, a_filename := filename,
                    a_filePath := Some (archivePath sid (archiveIdFromUrl env (the sourceUrl))
                       (the filename))\<rparr>) (s_archives s)\<rparr>"
    and "w' = w\<lparr>w_files := (w_files w)(archivePath sid (archiveIdFromUrl env (the sourceUrl))
                     (the filename) \<mapsto> decodeBase64 env (stripDataUri (the data))),
                w_sessions := (w_sessions w)(sessionFile (s_id s) \<mapsto> s')\<rparr>"
  shows "addArchive env w sid sourceUrl filename data
           = (w', summarizeSession w' objectPrototypeKeys s')"
  using assms
  by (simp add: addArchive_def Let_def ensureDir_session prefix_archivePath writeFile_def
        saveSession_eq)

lemma addNote_unbound_normalizeTags:
  assumes "normalizeTags env = None"
  shows "snd (addNote env dr w sid filename content isMain) \<noteq> Inr r"
proof
  assume "snd (addNote env dr w sid filename content isMain) = Inr r"
  then have "addNote env dr w sid filename content isMain
               = (fst (addNote env dr w sid filename content isMain), Inr r)"
    by (simp add: prod_eq_iff)
  from addNote_InrD [OF this] obtain nt where "normalizeTags env = Some nt"
    by metis
  with assms show False by simp
qed

lemma summarizeSession_mainSlug:
  "summarizeSession w inh s = Inr r \<Longrightarrow> sm_mainSlug r = s_mainSlug s"
  by (auto simp: summarizeSession_def Let_def split: sum.splits)

section \<open>The invariant of the stored sessions\<close>

lemma sessionInv_default: "sessionInv env c (defaultSession dr sid)"
  by (simp add: sessionInv_def defaultSession_def)

lemma sessionInv_registerNote:
  assumes inv: "sessionInv env c s" and d: "dep_notes (n_dependencies n) = []"
  shows "sessionInv env c (registerNote env s n isMain wl el c)"
proof -
  let ?s' = "registerNote env s n isMain wl el c"
  let ?ids = "(\<lambda>l. archiveIdFromUrl env (el_url l)) ` set el"
  from inv have i1: "distinct (map fst (s_archives s))"
    and i2: "\<And>k a. map_of (s_archives s) k = Some a \<Longrightarrow>
            a_id a = k \<and> archiveIdFromUrl env (a_url a) = k \<and> distinct (a_referencedBy a)"
    and i3: "\<And>k. k \<in> dom (map_of (s_pendingNotes s)) \<Longrightarrow>
            \<not> jsHas objectPrototypeKeys (s_notes s) k \<and> findExistingFolder c k = None"
    and i4: "\<And>k m t. map_of (s_notes s) k = Some m \<Longrightarrow>
            t \<in> dom (map_of (dep_notes (n_dependencies m))) \<Longrightarrow>
            jsHas objectPrototypeKeys (s_notes s) t \<or> findExistingFolder c t \<noteq> None
            \<or> t \<in> dom (map_of (s_pendingNotes s))"
    and i5: "\<And>m. s_mainSlug s = Some m \<Longrightarrow> jsHas objectPrototypeKeys (s_notes s) m"
    unfolding sessionInv_def by blast+
  have c1: "distinct (map fst (s_archives ?s'))"
    using i1 by (rule registerNote_distinct_archives)
  have c2: "a_id a = k \<and> archiveIdFromUrl env (a_url a) = k \<and> distinct (a_referencedBy a)"
    if h: "map_of (s_archives ?s') k = Some a" for k a
  proof (cases "map_of (s_archives s) k")
    case None
    show ?thesis
    proof (cases "k \<in> ?ids")
      case True
      from registerNote_archives_new [OF None True, of n isMain wl c] h
      show ?thesis by auto
    next
      case False
      from registerNote_archives_none [OF None False, of n isMain wl c] h
      show ?thesis by simp
    qed
  next
    case (Some a0)
    from registerNote_archives_old [OF Some, of env n isMain wl el c] h i2 [OF Some]
    show ?thesis by (auto split: if_splits)
  qed
  have c3: "\<not> jsHas objectPrototypeKeys (s_notes ?s') k \<and> findExistingFolder c k = None"
    if h: "k \<in> dom (map_of (s_pendingNotes ?s'))" for k
    using h i3 [of k] jsHas_mono [OF _ inheritedAfter_super, of "s_notes s" k n]
    unfolding registerNote_pending registerNote_jsHas by blast
  have c4: "jsHas objectPrototypeKeys (s_notes ?s') t \<or> findExistingFolder c t \<noteq> None
            \<or> t \<in> dom (map_of (s_pendingNotes ?s'))"
    if h: "map_of (s_notes ?s') k = Some m" "t \<in> dom (map_of (dep_notes (n_dependencies m)))"
    for k m t
  proof (cases "n_slug n \<noteq> ''__proto__'' \<and> k = n_slug n")
    case True
    with h(1) have m: "m = noteAfter env n wl el" by (simp add: registerNote_notes)
    with h(2) d have t: "t \<in> wl_targetSlug ` set wl" by (simp add: noteAfter_dep_notes)
    from True have "inheritedAfter n = objectPrototypeKeys" by (simp add: inheritedAfter_plain)
    with t show ?thesis unfolding registerNote_pending registerNote_jsHas by auto
  next
    case False
    with h(1) have "map_of (s_notes s) k = Some m" by (simp add: registerNote_notes)
    from i4 [OF this h(2)] show ?thesis
      unfolding registerNote_pending registerNote_jsHas by blast
  qed
  have c5: "jsHas objectPrototypeKeys (s_notes ?s') m" if h: "s_mainSlug ?s' = Some m" for m
    using h i5 [of m] unfolding registerNote_jsHas by (auto split: if_splits)
  show ?thesis unfolding sessionInv_def using c1 c2 c3 c4 c5 by blast
qed

lemma sessionInv_resolve:
  assumes inv: "sessionInv env c s" and a: "map_of (s_archives s) k = Some a"
  shows "sessionInv env c (s\<lparr>s_archives := AList.update k
           (a\<lparr>a_resolved := True, a_filename := fn, a_filePath := fp\<rparr>) (s_archives s)\<rparr>)"
  using assms unfolding sessionInv_def
  by (auto simp: distinct_update update_conv' split: if_splits)

lemma perform_fst:
  "w_posts (perform env c w) = w_posts w"
  "w_refused (perform env c w) = w_refused w"
  by (cases c; simp add: addNote_fst addArchive_fst createSession_fst)+

lemma run_fst:
  "w_posts (run env cs w) = w_posts w"
  "w_refused (run env cs w) = w_refused w"
  by (induction cs arbitrary: w; simp add: perform_fst)+

lemma storeInv_perform:
  assumes "storeInv env w"
  shows "storeInv env (perform env c w)"
  unfolding storeInv_def
proof (intro allI impI)
  fix f s'
  assume h: "w_sessions (perform env c w) f = Some s'"
  have p: "cacheOfPosts (w_posts (perform env c w)) = cacheOfPosts (w_posts w)"
    by (simp add: perform_fst)
  from assms have inv: "\<And>f s. w_sessions w f = Some s \<Longrightarrow>
      f = sessionFile (s_id s) \<and> sessionInv env (cacheOfPosts (w_posts w)) s"
    unfolding storeInv_def by blast
  have "f = sessionFile (s_id s') \<and> sessionInv env (cacheOfPosts (w_posts w)) s'"
  proof (cases c)
    case (CreateSession dr)
    with h have "w_sessions (fst (createSession dr w)) f = Some s'" by simp
    from createSession_sessions [OF this] show ?thesis
      using inv sessionInv_default by auto
  next
    case (AddNote dr sid filename content isMain)
    with h have "w_sessions (fst (addNote env dr w sid filename content isMain)) f = Some s'"
      by simp
    from addNote_sessions [OF this] show ?thesis
    proof
      assume "w_sessions w f = Some s'"
      then show ?thesis by (rule inv)
    next
      assume "\<exists>s n wl el. w_sessions w (sessionFile sid) = Some s
             \<and> dep_notes (n_dependencies n) = [] \<and> f = sessionFile (s_id s)
             \<and> s' = registerNote env s n isMain wl el (cacheOfPosts (w_posts w))"
      then obtain s n wl el where
        1: "w_sessions w (sessionFile sid) = Some s"
        and 2: "dep_notes (n_dependencies n) = []"
        and 3: "f = sessionFile (s_id s)"
        and 4: "s' = registerNote env s n isMain wl el (cacheOfPosts (w_posts w))"
        by auto
      from inv [OF 1] have "sessionInv env (cacheOfPosts (w_posts w)) s" by simp
      from sessionInv_registerNote [OF this 2] 3 4 show ?thesis by simp
    qed
  next
    case (AddArchive sid sourceUrl filename data)
    with h have "w_sessions (fst (addArchive env w sid sourceUrl filename data)) f = Some s'"
      by simp
    from addArchive_sessions [OF this] show ?thesis
    proof
      assume "w_sessions w f = Some s'"
      then show ?thesis by (rule inv)
    next
      assume "\<exists>s a fn fp. w_sessions w (sessionFile sid) = Some s
             \<and> map_of (s_archives s) (archiveIdFromUrl env (the sourceUrl)) = Some a
             \<and> f = sessionFile (s_id s)
             \<and> s' = s\<lparr>s_archives := AList.update (archiveIdFromUrl env (the sourceUrl))
                        (a\<lparr>a_resolved := True, a_filename := fn, a_filePath := fp\<rparr>)
                        (s_archives s)\<rparr>"
      then obtain s a fn fp where
        1: "w_sessions w (sessionFile sid) = Some s"
        and 2: "map_of (s_archives s) (archiveIdFromUrl env (the sourceUrl)) = Some a"
        and 3: "f = sessionFile (s_id s)"
        and 4: "s' = s\<lparr>s_archives := AList.update (archiveIdFromUrl env (the sourceUrl))
                        (a\<lparr>a_resolved := True, a_filename := fn, a_filePath := fp\<rparr>)
                        (s_archives s)\<rparr>"
        by auto
      from inv [OF 1] have "sessionInv env (cacheOfPosts (w_posts w)) s" by simp
      from sessionInv_resolve [OF this 2] 3 4 show ?thesis by simp
    qed
  qed
  then show "f = sessionFile (s_id s') \<and> sessionInv env (cacheOfPosts (w_posts (perform env c w))) s'"
    by (simp add: p)
qed

lemma storeInv_run: "storeInv env w \<Longrightarrow> storeInv env (run env cs w)"
  by (induction cs arbitrary: w) (simp_all add: storeInv_perform)

lemma storeInv_empty: "w_sessions w = Map.empty \<Longrightarrow> storeInv env w"
  by (simp add: storeInv_def)

lemma count_list_distinct: "distinct xs \<Longrightarrow> x \<in> set xs \<Longrightarrow> count_list xs x = 1"
  by (induction xs) (auto simp: count_list_0_iff)

lemma one_entry_per_key:
  "distinct (map fst al) \<Longrightarrow> map_of al k = Some v \<Longrightarrow>
     length (filter (\<lambda>e. fst e = k) al) = 1"
proof (induction al)
  case Nil
  then show ?case by simp
next
  case (Cons e al)
  show ?case
  proof (cases "fst e = k")
    case True
    with Cons.prems(1) have "k \<notin> fst ` set al" by auto
    then have "filter (\<lambda>e. fst e = k) al = []"
      by (auto simp: filter_empty_conv)
    with True show ?thesis by simp
  next
    case False
    with Cons show ?thesis by (cases e) auto
  qed
qed

lemma addNote_step:
  assumes inv: "storeInv env w"
    and a: "addNote env dr w sid filename content isMain = (w', Inr r)"
    and p: "parseMarkdown env dr (the content) (the filename) = Inr (meta, body)"
  obtains s n where
    "loadSession w sid = Inr s" and "s_id s = sid"
    and "sessionInv env (cacheOfPosts (w_posts w)) s"
    and "n_slug n = m_slug meta" and "dep_notes (n_dependencies n) = []"
    and "n = newNote (meta\<lparr>m_tags := TagsArray (the (normalizeTags env) (m_tags meta))\<rparr>) body
               (notePath sid (m_slug meta)) isMain"
    and "loadSession w' sid
           = Inr (registerNote env s n isMain (extractWikiLinks env dr body)
                    (extractExternalLinks body) (cacheOfPosts (w_posts w)))"
    and "w_posts w' = w_posts w" and "w_refused w' = w_refused w"
    and "summarizeSession w' (inheritedAfter n)
           (registerNote env s n isMain (extractWikiLinks env dr body)
              (extractExternalLinks body) (cacheOfPosts (w_posts w))) = Inr r"
    and "storeInv env w'"
proof (rule addNote_InrD [OF a])
  fix s meta0 body0 nt n
  assume l: "loadSession w sid = Inr s"
    and p0: "parseMarkdown env dr (the content) (the filename) = Inr (meta0, body0)"
    and nt: "normalizeTags env = Some nt"
    and n: "n = newNote (meta0\<lparr>m_tags := TagsArray (nt (m_tags meta0))\<rparr>) body0
               (notePath sid (m_slug meta0)) isMain"
    and w': "w' = w\<lparr>w_files := (w_files w)(notePath sid (m_slug meta0) \<mapsto> the content),
              w_sessions := (w_sessions w)(sessionFile (s_id s) \<mapsto>
                 registerNote env s n isMain (extractWikiLinks env dr body0)
                   (extractExternalLinks body0) (cacheOfPosts (w_posts w)))\<rparr>"
    and r: "summarizeSession w' (inheritedAfter n)
         (registerNote env s n isMain (extractWikiLinks env dr body0)
            (extractExternalLinks body0) (cacheOfPosts (w_posts w))) = Inr r"
  from p p0 have m0: "meta0 = meta" "body0 = body" by simp_all
  from l have ws: "w_sessions w (sessionFile sid) = Some s"
    and nr: "\<not> w_refused w (sessionFile sid)"
    by (simp_all add: loadSession_Inr)
  from inv ws have fs: "sessionFile sid = sessionFile (s_id s)"
    and si: "sessionInv env (cacheOfPosts (w_posts w)) s"
    unfolding storeInv_def by blast+
  from fs have sid: "s_id s = sid" by (simp add: sessionFile_inj)
  have l': "loadSession w' sid
           = Inr (registerNote env s n isMain (extractWikiLinks env dr body)
                    (extractExternalLinks body) (cacheOfPosts (w_posts w)))"
    using nr by (simp add: loadSession_Inr w' sid m0)
  have "w' = fst (addNote env dr w sid filename content isMain)" using a by simp
  then have "w' = perform env (AddNote dr sid filename content isMain) w" by simp
  with inv have inv': "storeInv env w'" by (simp only: storeInv_perform)
  show ?thesis
  proof (rule that [of s n])
    show "loadSession w sid = Inr s" by (rule l)
    show "s_id s = sid" by (rule sid)
    show "sessionInv env (cacheOfPosts (w_posts w)) s" by (rule si)
    show "n_slug n = m_slug meta" by (simp add: n newNote_def m0)
    show "dep_notes (n_dependencies n) = []" by (simp add: n newNote_def)
    show "n = newNote (meta\<lparr>m_tags := TagsArray (the (normalizeTags env) (m_tags meta))\<rparr>) body
               (notePath sid (m_slug meta)) isMain"
      by (simp add: n nt m0)
    show "loadSession w' sid
           = Inr (registerNote env s n isMain (extractWikiLinks env dr body)
                    (extractExternalLinks body) (cacheOfPosts (w_posts w)))"
      by (rule l')
    show "w_posts w' = w_posts w" "w_refused w' = w_refused w" by (simp_all add: w')
    show "summarizeSession w' (inheritedAfter n)
           (registerNote env s n isMain (extractWikiLinks env dr body)
              (extractExternalLinks body) (cacheOfPosts (w_posts w))) = Inr r"
      using r by (simp add: m0)
    show "storeInv env w'" by (rule inv')
  qed
qed

section \<open>The example session, step by step\<close>

lemma example_create: "createSession exampleDraws emptyWorld = (exampleWorld session0 [], Inr exampleId)"
  by (simp add: createSession_def Let_def sessionPath_def ensureDir_def saveSession_eq
        isPrefix_def sessionsRoot_def postsRoot_def defaultSession_def exampleDraws_def
        emptyWorld_def exampleWorld_def session0_def exampleSession_def exampleId_def)

lemma example_load: "loadSession (exampleWorld s files) exampleId = Inr s"
  by (simp add: loadSession_Inr exampleWorld_def)

lemma example_parse:
  "parseMarkdown serverEnv exampleDraws bodyA ''a.md'' = Inr (exampleMeta ''a'' \<lparr>m_tags := TagsAbsent\<rparr>, bodyA)"
  "parseMarkdown serverEnv exampleDraws ''x'' ''a.md'' = Inr (exampleMeta ''a'' \<lparr>m_tags := TagsAbsent\<rparr>, ''x'')"
  "parseMarkdown serverEnv exampleDraws bodyB ''b.md'' = Inr (exampleMeta ''b'' \<lparr>m_tags := TagsAbsent\<rparr>, bodyB)"
  by code_simp+

lemma example_addNote:
  assumes p: "parseMarkdown serverEnv exampleDraws body filename
                = Inr ((exampleMeta slug)\<lparr>m_tags := TagsAbsent\<rparr>, body)"
    and ne: "body \<noteq> []" "filename \<noteq> []" "slug \<noteq> ''__proto__''"
    and r: "registerNote serverEnv s
              (newNote (exampleMeta slug) body (notePath exampleId slug) isMain) isMain
              (extractWikiLinks serverEnv exampleDraws body) (extractExternalLinks body) [] = s'"
    and sid: "s_id s = exampleId"
  shows "addNote serverEnv exampleDraws (exampleWorld s files) exampleId (Some filename)
           (Some body) isMain
         = (exampleWorld s' ((notePath exampleId slug, body) # files),
            Inr (projr (summarizeSession (exampleWorld s' ((notePath exampleId slug, body) # files))
                   objectPrototypeKeys s')))"
proof -
  let ?n = "newNote (exampleMeta slug) body (notePath exampleId slug) isMain"
  let ?w' = "exampleWorld s' ((notePath exampleId slug, body) # files)"
  have t: "(exampleMeta slug)\<lparr>m_tags := TagsArray (serverNormalizeTags TagsAbsent)\<rparr> = exampleMeta slug"
    by (simp add: exampleMeta_def serverNormalizeTags_def DEFAULT_TAG_def)
  have "addNote serverEnv exampleDraws (exampleWorld s files) exampleId (Some filename)
           (Some body) isMain = (?w', summarizeSession ?w' (inheritedAfter ?n) s')"
  proof (rule addNote_ok [where s = s and nt = serverNormalizeTags
        and meta = "(exampleMeta slug)\<lparr>m_tags := TagsAbsent\<rparr>" and body = body])
    show "truthy (Some filename)" "truthy (Some body)"
      using ne by (simp_all add: truthy_def)
    show "loadSession (exampleWorld s files) exampleId = Inr s" by (rule example_load)
    show "parseMarkdown serverEnv exampleDraws (the (Some body)) (the (Some filename))
            = Inr ((exampleMeta slug)\<lparr>m_tags := TagsAbsent\<rparr>, body)"
      using p by simp
    show "normalizeTags serverEnv = Some serverNormalizeTags"
      by (simp add: serverEnv_def)
    show "?n = newNote ((exampleMeta slug)\<lparr>m_tags := TagsAbsent\<rparr>
                 \<lparr>m_tags := TagsArray (serverNormalizeTags
                    (m_tags ((exampleMeta slug)\<lparr>m_tags := TagsAbsent\<rparr>)))\<rparr>) body
               (notePath exampleId (m_slug ((exampleMeta slug)\<lparr>m_tags := TagsAbsent\<rparr>))) isMain"
      using t by (simp add: exampleMeta_def)
    show "s' = registerNote serverEnv s ?n isMain (extractWikiLinks serverEnv exampleDraws body)
                (extractExternalLinks body) (cacheOfPosts (w_posts (exampleWorld s files)))"
      using r by (simp add: exampleWorld_def cacheOfPosts_def)
    show "?w' = (exampleWorld s files)
            \<lparr>w_files := (w_files (exampleWorld s files))
                (notePath exampleId (m_slug ((exampleMeta slug)\<lparr>m_tags := TagsAbsent\<rparr>))
                   \<mapsto> the (Some body)),
             w_sessions := (w_sessions (exampleWorld s files))(sessionFile (s_id s) \<mapsto> s')\<rparr>"
      using sid by (simp add: exampleWorld_def exampleMeta_def)
  qed (simp_all add: exampleWorld_def)
  moreover have "inheritedAfter ?n = objectPrototypeKeys"
    using ne by (simp add: inheritedAfter_def newNote_def exampleMeta_def)
  moreover have "summarizeSession ?w' objectPrototypeKeys s'
          = Inr (projr (summarizeSession ?w' objectPrototypeKeys s'))"
    by (rule summarizeSession_ok) (simp add: exampleWorld_def)
  ultimately show ?thesis by simp
qed

lemma example_register:
  "registerNote serverEnv session0 (newNote (exampleMeta ''a'') bodyA (notePath exampleId ''a'') True)
     True (extractWikiLinks serverEnv exampleDraws bodyA) (extractExternalLinks bodyA) [] = sessionA"
  "registerNote serverEnv sessionA (newNote (exampleMeta ''b'') bodyB (notePath exampleId ''b'') True)
     True (extractWikiLinks serverEnv exampleDraws bodyB) (extractExternalLinks bodyB) [] = sessionAB"
  "registerNote serverEnv sessionA (newNote (exampleMeta ''a'') ''x'' (notePath exampleId ''a'') False)
     False (extractWikiLinks serverEnv exampleDraws ''x'') (extractExternalLinks ''x'') [] = sessionAA"
  "registerNote serverEnv session0 (newNote (exampleMeta ''b'') bodyB (notePath exampleId ''b'') True)
     True (extractWikiLinks serverEnv exampleDraws bodyB) (extractExternalLinks bodyB) [] = sessionB"
  "registerNote serverEnv sessionB (newNote (exampleMeta ''a'') bodyA (notePath exampleId ''a'') True)
     True (extractWikiLinks serverEnv exampleDraws bodyA) (extractExternalLinks bodyA) [] = sessionBA"
  by code_simp+

lemma example_paths:
  "notePath exampleId ''a'' = ''uploads/sessions/9f86d081884c7d65/notes/a.md''"
  "notePath exampleId ''b'' = ''uploads/sessions/9f86d081884c7d65/notes/b.md''"
  by (simp_all add: notePath_def sessionPath_def sessionsRoot_def exampleId_def)

lemma example_ids [simp]:
  "s_id session0 = exampleId" "s_id sessionA = exampleId" "s_id sessionAB = exampleId"
  "s_id sessionB = exampleId" "s_id sessionAA = exampleId" "s_id sessionBA = exampleId"
  "s_id sessionABR = exampleId"
  by (simp_all add: session0_def sessionA_def sessionAB_def sessionB_def sessionAA_def
        sessionBA_def sessionABR_def exampleSession_def)

lemma example_addA:
  "addNote serverEnv exampleDraws (exampleWorld session0 []) exampleId (Some ''a.md'') (Some bodyA) True
     = (exampleWorld sessionA [fileA],
        Inr (projr (summarizeSession (exampleWorld sessionA [fileA]) objectPrototypeKeys sessionA)))"
  using example_addNote [OF example_parse(1) _ _ _ example_register(1), of "[]"]
  by (simp add: fileA_def example_paths) (simp add: bodyA_def)

lemma example_addB:
  "addNote serverEnv exampleDraws (exampleWorld sessionA [fileA]) exampleId (Some ''b.md'') (Some bodyB) True
     = (exampleWorld sessionAB [fileB, fileA],
        Inr (projr (summarizeSession (exampleWorld sessionAB [fileB, fileA]) objectPrototypeKeys sessionAB)))"
  using example_addNote [OF example_parse(3) _ _ _ example_register(2), of "[fileA]"]
  by (simp add: fileB_def example_paths) (simp add: bodyB_def)

lemma example_addA2:
  "addNote serverEnv exampleDraws (exampleWorld sessionA [fileA]) exampleId (Some ''a.md'') (Some ''x'') False
     = (exampleWorld sessionAA [fileA2, fileA],
        Inr (projr (summarizeSession (exampleWorld sessionAA [fileA2, fileA]) objectPrototypeKeys sessionAA)))"
  using example_addNote [OF example_parse(2) _ _ _ example_register(3), of "[fileA]"]
  by (simp add: fileA2_def example_paths)

lemma example_addB0:
  "addNote serverEnv exampleDraws (exampleWorld session0 []) exampleId (Some ''b.md'') (Some bodyB) True
     = (exampleWorld sessionB [fileB],
        Inr (projr (summarizeSession (exampleWorld sessionB [fileB]) objectPrototypeKeys sessionB)))"
  using example_addNote [OF example_parse(3) _ _ _ example_register(4), of "[]"]
  by (simp add: fileB_def example_paths) (simp add: bodyB_def)

lemma example_addAB:
  "addNote serverEnv exampleDraws (exampleWorld sessionB [fileB]) exampleId (Some ''a.md'') (Some bodyA) True
     = (exampleWorld sessionBA [fileA, fileB],
        Inr (projr (summarizeSession (exampleWorld sessionBA [fileA, fileB]) objectPrototypeKeys sessionBA)))"
  using example_addNote [OF example_parse(1) _ _ _ example_register(5), of "[fileB]"]
  by (simp add: fileA_def example_paths) (simp add: bodyA_def)

lemma example_archiveId: "archiveIdFromUrl serverEnv ''http://example.com'' = ''a9b9f04336''"
  by code_simp

lemma example_decode: "decodeBase64 serverEnv d = d"
  by (simp add: serverEnv_def moduleEnv_def)

lemma example_archive_early:
  "addArchive serverEnv (exampleWorld session0 []) exampleId (Some ''http://example.com'')
     (Some ''x.html'') (Some ''AAAA'')
     = (exampleWorld session0 [], Inl (Error ''Archive was not requested''))"
  by (rule addArchive_not_requested [where s = session0])
     (simp_all add: truthy_def example_load example_archiveId session0_def exampleSession_def)

lemma example_archive:
  "addArchive serverEnv (exampleWorld sessionAB [fileB, fileA]) exampleId (Some ''http://example.com'')
     (Some ''x.html'') (Some ''AAAA'')
     = (exampleWorld sessionABR [fileR, fileB, fileA],
        Inr (projr (summarizeSession (exampleWorld sessionABR [fileR, fileB, fileA])
               objectPrototypeKeys sessionABR)))"
proof -
  let ?w' = "exampleWorld sessionABR [fileR, fileB, fileA]"
  have "addArchive serverEnv (exampleWorld sessionAB [fileB, fileA]) exampleId
          (Some ''http://example.com'') (Some ''x.html'') (Some ''AAAA'')
        = (?w', summarizeSession ?w' objectPrototypeKeys sessionABR)"
  proof (rule addArchive_ok [where s = sessionAB and a = "requested [''a'', ''b'']"])
    show "loadSession (exampleWorld sessionAB [fileB, fileA]) exampleId = Inr sessionAB"
      by (rule example_load)
    show "map_of (s_archives sessionAB) (archiveIdFromUrl serverEnv (the (Some ''http://example.com'')))
            = Some (requested [''a'', ''b''])"
      by (simp add: example_archiveId sessionAB_def exampleSession_def requested_def)
    show "sessionABR = sessionAB\<lparr>s_archives :=
            AList.update (archiveIdFromUrl serverEnv (the (Some ''http://example.com'')))
              ((requested [''a'', ''b''])\<lparr>a_resolved := True, a_filename := Some ''x.html'',
                 a_filePath := Some (archivePath exampleId
                    (archiveIdFromUrl serverEnv (the (Some ''http://example.com'')))
                    (the (Some ''x.html'')))\<rparr>) (s_archives sessionAB)\<rparr>"
      by (simp add: example_archiveId sessionAB_def sessionABR_def exampleSession_def
            requested_def supplied_def archivePath_def sessionPath_def sessionsRoot_def
            exampleId_def)
    show "?w' = (exampleWorld sessionAB [fileB, fileA])
            \<lparr>w_files := (w_files (exampleWorld sessionAB [fileB, fileA]))
                (archivePath exampleId (archiveIdFromUrl serverEnv (the (Some ''http://example.com'')))
                   (the (Some ''x.html''))
                 \<mapsto> decodeBase64 serverEnv (stripDataUri (the (Some ''AAAA'')))),
             w_sessions := (w_sessions (exampleWorld sessionAB [fileB, fileA]))
                (sessionFile (s_id sessionAB) \<mapsto> sessionABR)\<rparr>"
      by (simp add: example_archiveId example_decode exampleWorld_def fileR_def archivePath_def
            sessionPath_def sessionsRoot_def exampleId_def stripDataUri_def)
  qed (simp_all add: truthy_def exampleWorld_def)
  moreover have "summarizeSession ?w' objectPrototypeKeys sessionABR
          = Inr (projr (summarizeSession ?w' objectPrototypeKeys sessionABR))"
    by (rule summarizeSession_ok) (simp add: exampleWorld_def)
  ultimately show ?thesis by simp
qed

lemma example_runs:
  "run serverEnv [CreateSession exampleDraws] emptyWorld = exampleWorld session0 []"
  "run serverEnv [CreateSession exampleDraws, callA] emptyWorld = exampleWorld sessionA [fileA]"
  "run serverEnv [CreateSession exampleDraws, callA, callB] emptyWorld
     = exampleWorld sessionAB [fileB, fileA]"
  "run serverEnv [CreateSession exampleDraws, callA, callA2] emptyWorld
     = exampleWorld sessionAA [fileA2, fileA]"
  "run serverEnv [CreateSession exampleDraws, callA, callB, callR] emptyWorld
     = exampleWorld sessionABR [fileR, fileB, fileA]"
  "run serverEnv [CreateSession exampleDraws, callR, callA, callB] emptyWorld
     = exampleWorld sessionAB [fileB, fileA]"
  "run serverEnv [CreateSession exampleDraws, callB, callA] emptyWorld
     = exampleWorld sessionBA [fileA, fileB]"
  by (simp_all add: callA_def callB_def callA2_def callR_def example_create example_addA
        example_addB example_addA2 example_archive example_archive_early example_addB0
        example_addAB)


lemma example_ready:
  "map_sum id sm_ready (getSession (exampleWorld sessionABR [fileR, fileB, fileA]) exampleId) = Inr True"
  "map_sum id sm_ready (getSession (exampleWorld sessionAB [fileB, fileA]) exampleId) = Inr False"
  "map_sum id sm_ready (getSession (exampleWorld sessionBA [fileA, fileB]) exampleId) = Inr False"
  unfolding getSession_def example_load sum.case
  by (simp_all add: summarizeSession_def buildExistingCache_eq Let_def
      exampleWorld_def sessionABR_def sessionAB_def sessionBA_def exampleSession_def supplied_def requested_def)

section \<open>Registering two notes in either order\<close>

lemma registerNote_jsHas_inherited:
  "set objectPrototypeKeys \<subseteq> set inh \<Longrightarrow>
     jsHas inh (s_notes (registerNote env s n isMain wl el c)) k \<longleftrightarrow>
       k = n_slug n \<or> jsHas inh (s_notes s) k"
  by (simp add: registerNote_def Let_def jsHas_storeNote updateNoteDependencies_note)

lemma all_values_map_of:
  "distinct (map fst al) \<Longrightarrow>
     (\<forall>v \<in> snd ` set al. P v) \<longleftrightarrow> (\<forall>k v. map_of al k = Some v \<longrightarrow> P v)"
  by (auto simp: map_of_eq_Some_iff)

lemma summarizeSession_ready:
  assumes "summarizeSession w inh s = Inr r"
  shows "sm_ready r \<longleftrightarrow> s_pendingNotes s = [] \<and> (\<forall>a \<in> snd ` set (s_archives s). a_resolved a)"
  using assms
  by (fastforce simp: summarizeSession_def Let_def filter_empty_conv split: sum.splits)

lemma summarizeSession_ready_maps:
  assumes "summarizeSession w inh s = Inr r" and "distinct (map fst (s_archives s))"
  shows "sm_ready r \<longleftrightarrow>
           dom (map_of (s_pendingNotes s)) = {}
           \<and> (\<forall>k. map_option a_resolved (map_of (s_archives s) k) \<noteq> Some False)"
proof -
  have "s_pendingNotes s = [] \<longleftrightarrow> dom (map_of (s_pendingNotes s)) = {}"
    by (cases "s_pendingNotes s") (auto simp: dom_map_of_conv_image_fst)
  moreover have "(\<forall>a \<in> snd ` set (s_archives s). a_resolved a)
      \<longleftrightarrow> (\<forall>k. map_option a_resolved (map_of (s_archives s) k) \<noteq> Some False)"
    unfolding all_values_map_of [OF assms(2)] by (auto simp: map_option_case split: option.splits)
  ultimately show ?thesis using summarizeSession_ready [OF assms(1)] by simp
qed

lemma registerNote_twice_notes:
  assumes "n_slug n1 \<noteq> n_slug n2"
  shows "map_of (s_notes (registerNote env (registerNote env s n1 i1 wl1 el1 c) n2 i2 wl2 el2 c))
       = map_of (s_notes (registerNote env (registerNote env s n2 i2 wl2 el2 c) n1 i1 wl1 el1 c))"
  using assms by (auto simp: fun_eq_iff registerNote_notes)

lemma registerNote_twice_pending:
  assumes "n_slug n1 \<noteq> n_slug n2"
  shows "dom (map_of (s_pendingNotes (registerNote env (registerNote env s n1 i1 wl1 el1 c) n2 i2 wl2 el2 c)))
       = dom (map_of (s_pendingNotes (registerNote env (registerNote env s n2 i2 wl2 el2 c) n1 i1 wl1 el1 c)))"
proof (rule set_eqI)
  fix k
  show "k \<in> dom (map_of (s_pendingNotes (registerNote env (registerNote env s n1 i1 wl1 el1 c) n2 i2 wl2 el2 c)))
     \<longleftrightarrow> k \<in> dom (map_of (s_pendingNotes (registerNote env (registerNote env s n2 i2 wl2 el2 c) n1 i1 wl1 el1 c)))"
    unfolding registerNote_pending registerNote_jsHas_inherited [OF inheritedAfter_super]
    using assms by blast
qed

lemma registerNote_twice_resolved:
  "map_option a_resolved (map_of (s_archives (registerNote env (registerNote env s n1 i1 wl1 el1 c) n2 i2 wl2 el2 c)) k)
     = map_option a_resolved (map_of (s_archives (registerNote env (registerNote env s n2 i2 wl2 el2 c) n1 i1 wl1 el1 c)) k)"
proof -
  let ?r1 = "map_option a_resolved (map_of (s_archives (registerNote env s n1 i1 wl1 el1 c)) k)"
  let ?r2 = "map_option a_resolved (map_of (s_archives (registerNote env s n2 i2 wl2 el2 c)) k)"
  have c: "case_option y (\<lambda>a. Some (a_resolved a)) m = (case map_option a_resolved m of None \<Rightarrow> y | Some b \<Rightarrow> Some b)"
    for y and m :: "archive option"
    by (cases m) simp_all
  show ?thesis
    unfolding registerNote_resolved [of env "registerNote env s n1 i1 wl1 el1 c"]
      registerNote_resolved [of env "registerNote env s n2 i2 wl2 el2 c"] c
    unfolding registerNote_resolved [of env s]
    by (auto split: option.splits)
qed

section \<open>Readiness in the status summary\<close>

text \<open>
  C1. The summary's \<open>ready\<close> flag is computed from the awaited notes and the unresolved
  archives alone. On a session as \<open>createSession\<close> leaves it, the summary reports
  \<open>ready = true\<close> with no main slug, and \<open>commitSession\<close>, whose check also asks for
  the main slug, refuses the same session.
\<close>

theorem summary_ready_without_main_slug:
  "createSession exampleDraws emptyWorld = (exampleWorld session0 [], Inr exampleId)
   \<and> getSession (exampleWorld session0 []) exampleId
       = Inr \<lparr>sm_sessionId = exampleId, sm_mainSlug = None, sm_notes = [], sm_pendingNotes = [],
              sm_pendingArchives = [], sm_ready = True\<rparr>
   \<and> snd (commitSession serverEnv exampleDraws (exampleWorld session0 []) exampleId)
       = Inl (Error ''No main note uploaded'')"
proof -
  have "getSession (exampleWorld session0 []) exampleId
       = Inr \<lparr>sm_sessionId = exampleId, sm_mainSlug = None, sm_notes = [], sm_pendingNotes = [],
              sm_pendingArchives = [], sm_ready = True\<rparr>"
    by code_simp
  moreover have "snd (commitSession serverEnv exampleDraws (exampleWorld session0 []) exampleId)
       = Inl (Error ''No main note uploaded'')"
    by code_simp
  ultimately show ?thesis using example_create by simp
qed

theorem summary_ready_without_main_slug_witness:
  "sm_ready (projr (getSession (exampleWorld session0 []) exampleId))
   \<and> sm_mainSlug (projr (getSession (exampleWorld session0 []) exampleId)) = None
   \<and> snd (commitSession serverEnv exampleDraws (exampleWorld session0 []) exampleId)
       = Inl (Error ''No main note uploaded'')"
proof -
  note t = summary_ready_without_main_slug
  from t [THEN conjunct2, THEN conjunct1]
  have "sm_ready (projr (getSession (exampleWorld session0 []) exampleId))"
    and "sm_mainSlug (projr (getSession (exampleWorld session0 []) exampleId)) = None"
    by simp_all
  with t [THEN conjunct2, THEN conjunct2] show ?thesis by (intro conjI)
qed

section \<open>Commit and its readiness check\<close>

text \<open>
  C2. The session of the example is ready: nothing is awaited, its archive is resolved
  and the main slug is set. With the module as it is, \<open>commitSession\<close> on it raises a
  \<open>ReferenceError\<close> at the first note, because \<open>normalizeTags\<close> is not bound in the
  module; the error is none of the declared kinds. With the identifier bound to the
  function of server.js the same call returns the two folder names.
\<close>

theorem commit_of_ready_session_raises:
  "assertReady sessionABR = Inr ()
   \<and> snd (commitSession moduleEnv exampleDraws (exampleWorld sessionABR [fileR, fileB, fileA])
            exampleId) = Inl (ReferenceError ''normalizeTags is not defined'')
   \<and> kindOf (ReferenceError ''normalizeTags is not defined'') = None
   \<and> snd (commitSession serverEnv exampleDraws (exampleWorld sessionABR [fileR, fileB, fileA])
            exampleId) = Inr (True, [''2024-03-09-a'', ''2024-03-09-b''])"
proof -
  have "assertReady sessionABR = Inr ()"
    by code_simp
  moreover have "snd (commitSession moduleEnv exampleDraws
            (exampleWorld sessionABR [fileR, fileB, fileA]) exampleId)
          = Inl (ReferenceError ''normalizeTags is not defined'')"
    by code_simp
  moreover have "kindOf (ReferenceError ''normalizeTags is not defined'') = None"
    by (simp add: kindOf_def)
  moreover have "snd (commitSession serverEnv exampleDraws
            (exampleWorld sessionABR [fileR, fileB, fileA]) exampleId)
          = Inr (True, [''2024-03-09-a'', ''2024-03-09-b''])"
    by code_simp
  ultimately show ?thesis by simp
qed

theorem commit_of_ready_session_raises_witness:
  "\<exists>e. snd (commitSession moduleEnv exampleDraws (exampleWorld sessionABR [fileR, fileB, fileA])
            exampleId) = Inl e \<and> kindOf e = None"
proof -
  note t = commit_of_ready_session_raises
  from t [THEN conjunct2, THEN conjunct1] t [THEN conjunct2, THEN conjunct2, THEN conjunct1]
  have "snd (commitSession moduleEnv exampleDraws (exampleWorld sessionABR [fileR, fileB, fileA])
            exampleId) = Inl (ReferenceError ''normalizeTags is not defined'')
        \<and> kindOf (ReferenceError ''normalizeTags is not defined'') = None"
    by (rule conjI)
  then show ?thesis by (rule exI)
qed

section \<open>The outcomes of adding a note\<close>

text \<open>
  C3. With the module as it is, \<open>addNote\<close> with a file name, a content and an existing
  session writes the note's file and then raises a \<open>ReferenceError\<close>, because
  \<open>normalizeTags\<close> is not bound in the module. The error is none of the four declared
  kinds, and the session file is left as it was.
\<close>

theorem addNote_raises_reference_error:
  "snd (addNote moduleEnv exampleDraws (exampleWorld session0 []) exampleId (Some ''a.md'')
          (Some bodyA) True) = Inl (ReferenceError ''normalizeTags is not defined'')
   \<and> kindOf (ReferenceError ''normalizeTags is not defined'') = None
   \<and> w_files (fst (addNote moduleEnv exampleDraws (exampleWorld session0 []) exampleId
          (Some ''a.md'') (Some bodyA) True)) (notePath exampleId ''a'') = Some bodyA
   \<and> w_sessions (fst (addNote moduleEnv exampleDraws (exampleWorld session0 []) exampleId
          (Some ''a.md'') (Some bodyA) True)) (sessionFile exampleId) = Some session0"
proof -
  have "snd (addNote moduleEnv exampleDraws (exampleWorld session0 []) exampleId (Some ''a.md'')
          (Some bodyA) True) = Inl (ReferenceError ''normalizeTags is not defined'')"
    by code_simp
  moreover have "kindOf (ReferenceError ''normalizeTags is not defined'') = None"
    by (simp add: kindOf_def)
  moreover have "w_files (fst (addNote moduleEnv exampleDraws (exampleWorld session0 [])
          exampleId (Some ''a.md'') (Some bodyA) True)) (notePath exampleId ''a'') = Some bodyA"
    by code_simp
  moreover have "w_sessions (fst (addNote moduleEnv exampleDraws (exampleWorld session0 [])
          exampleId (Some ''a.md'') (Some bodyA) True)) (sessionFile exampleId) = Some session0"
    by code_simp
  ultimately show ?thesis by simp
qed

theorem addNote_raises_reference_error_witness:
  "\<exists>e. snd (addNote moduleEnv exampleDraws (exampleWorld session0 []) exampleId (Some ''a.md'')
          (Some bodyA) True) = Inl e \<and> kindOf e = None"
proof -
  note t = addNote_raises_reference_error
  from t [THEN conjunct1] t [THEN conjunct2, THEN conjunct1]
  have "snd (addNote moduleEnv exampleDraws (exampleWorld session0 []) exampleId (Some ''a.md'')
          (Some bodyA) True) = Inl (ReferenceError ''normalizeTags is not defined'')
        \<and> kindOf (ReferenceError ''normalizeTags is not defined'') = None"
    by (rule conjI)
  then show ?thesis by (rule exI)
qed

section \<open>Slug derivation\<close>

text \<open>
  C9 as stated fails: the title \<open>???\<close> is not empty, its slugization is, and the
  identifier then comes from the random source, so two evaluations differ.
\<close>

theorem slug_of_punctuation_title_is_random:
  "''???'' \<noteq> [] \<and> slugize serverEnv ''???'' = []
   \<and> slugFromTitle serverEnv ''9f86d081884c7d65'' ''???'' = ''9f86d081884c7d65''
   \<and> slugFromTitle serverEnv ''0123456789abcdef'' ''???'' = ''0123456789abcdef''
   \<and> slugFromTitle serverEnv ''9f86d081884c7d65'' ''???''
       \<noteq> slugFromTitle serverEnv ''0123456789abcdef'' ''???''"
  by code_simp

text \<open>
  C9, amended. For every title whose slugization is not empty, the identifier is that
  slugization whatever the random source returns, also for the targets of the wiki
  links of a body; the random fallback is taken exactly when the slugization of the
  title is empty.
\<close>

theorem slug_deterministic_unless_slugization_empty:
  "(slugize env title \<noteq> [] \<longrightarrow>
      slugFromTitle env r1 title = slugize env title
      \<and> slugFromTitle env r1 title = slugFromTitle env r2 title)
   \<and> (slugize env title = [] \<longrightarrow> slugFromTitle env r1 title = slugize env r1)
   \<and> ((\<forall>m \<in> set (scanWith matchWikiAt 0 body). slugize env (trim (fst m)) \<noteq> []) \<longrightarrow>
        extractWikiLinks env dr1 body = extractWikiLinks env dr2 body)"
proof -
  have "extractWikiLinks env dr1 body = extractWikiLinks env dr2 body"
    if h: "\<forall>m \<in> set (scanWith matchWikiAt 0 body). slugize env (trim (fst m)) \<noteq> []"
  proof -
    have "slugize env (trim g1) \<noteq> []"
      if e: "(k, (g1, g2)) \<in> set (enumerate 0 (scanWith matchWikiAt 0 body))" for k g1 g2
    proof -
      from e have "k < length (scanWith matchWikiAt 0 body)"
        and "scanWith matchWikiAt 0 body ! k = (g1, g2)"
        by (simp_all add: in_set_enumerate_eq)
      then have "(g1, g2) \<in> set (scanWith matchWikiAt 0 body)"
        by (metis nth_mem)
      with h show ?thesis by force
    qed
    then show ?thesis
      unfolding extractWikiLinks_def
      by (intro map_cong refl) (auto simp: slugFromTitle_def)
  qed
  then show ?thesis by (simp add: slugFromTitle_def)
qed

theorem slug_deterministic_unless_slugization_empty_witness:
  "slugize serverEnv ''Note B'' \<noteq> []
   \<and> slugFromTitle serverEnv ''9f86d081884c7d65'' ''Note B'' = ''note-b''
   \<and> slugFromTitle serverEnv ''9f86d081884c7d65'' ''Note B''
       = slugFromTitle serverEnv ''0123456789abcdef'' ''Note B''
   \<and> slugize serverEnv [] = []
   \<and> slugFromTitle serverEnv ''9f86d081884c7d65'' [] = ''9f86d081884c7d65''
   \<and> scanWith matchWikiAt 0 bodyA = [(''B'', None)] \<and> slugize serverEnv (trim ''B'') = ''b''
   \<and> extractWikiLinks serverEnv exampleDraws bodyA
       = extractWikiLinks serverEnv (exampleDraws\<lparr>d_randomId := (\<lambda>k. ''0123456789abcdef'')\<rparr>) bodyA"
proof -
  have s: "slugize serverEnv ''Note B'' = ''note-b''" by code_simp
  have e: "slugize serverEnv [] = []" by code_simp
  have r: "slugize serverEnv ''9f86d081884c7d65'' = ''9f86d081884c7d65''" by code_simp
  have m: "scanWith matchWikiAt 0 bodyA = [(''B'', None)]" by code_simp
  have b: "slugize serverEnv (trim ''B'') = ''b''" by code_simp
  have a: "\<forall>m \<in> set (scanWith matchWikiAt 0 bodyA). slugize serverEnv (trim (fst m)) \<noteq> []"
    by (simp add: m b)
  note t1 = slug_deterministic_unless_slugization_empty
    [of serverEnv "''Note B''" "''9f86d081884c7d65''" "''0123456789abcdef''" bodyA exampleDraws
        "exampleDraws\<lparr>d_randomId := (\<lambda>k. ''0123456789abcdef'')\<rparr>"]
  note t2 = slug_deterministic_unless_slugization_empty
    [of serverEnv "[]" "''9f86d081884c7d65''" "''0123456789abcdef''" bodyA exampleDraws exampleDraws]
  from t1 have c1: "slugize serverEnv ''Note B'' \<noteq> [] \<longrightarrow>
      slugFromTitle serverEnv ''9f86d081884c7d65'' ''Note B'' = slugize serverEnv ''Note B''
      \<and> slugFromTitle serverEnv ''9f86d081884c7d65'' ''Note B''
          = slugFromTitle serverEnv ''0123456789abcdef'' ''Note B''"
    by (rule conjunct1)
  from t1 have c3: "(\<forall>m \<in> set (scanWith matchWikiAt 0 bodyA). slugize serverEnv (trim (fst m)) \<noteq> []) \<longrightarrow>
        extractWikiLinks serverEnv exampleDraws bodyA
       = extractWikiLinks serverEnv (exampleDraws\<lparr>d_randomId := (\<lambda>k. ''0123456789abcdef'')\<rparr>) bodyA"
    by (rule conjunct2 [THEN conjunct2])
  from t2 have c2: "slugize serverEnv [] = [] \<longrightarrow>
      slugFromTitle serverEnv ''9f86d081884c7d65'' [] = slugize serverEnv ''9f86d081884c7d65''"
    by (rule conjunct2 [THEN conjunct1])
  have n: "slugize serverEnv ''Note B'' \<noteq> []" by (simp add: s)
  from c1 n have 11: "slugFromTitle serverEnv ''9f86d081884c7d65'' ''Note B'' = ''note-b''"
    by (simp add: s)
  from c1 n have 12: "slugFromTitle serverEnv ''9f86d081884c7d65'' ''Note B''
       = slugFromTitle serverEnv ''0123456789abcdef'' ''Note B''"
    by blast
  from c3 a have 13: "extractWikiLinks serverEnv exampleDraws bodyA
       = extractWikiLinks serverEnv (exampleDraws\<lparr>d_randomId := (\<lambda>k. ''0123456789abcdef'')\<rparr>) bodyA"
    by blast
  from c2 e have 2: "slugFromTitle serverEnv ''9f86d081884c7d65'' [] = ''9f86d081884c7d65''"
    by (simp add: r)
  from n e m b 11 12 13 2 show ?thesis by (intro conjI)
qed

section \<open>Adding an archive\<close>



section \<open>Awaited notes\<close>




section \<open>The main note\<close>




section \<open>Archives shared by notes\<close>



section \<open>Order of uploads\<close>




section \<open>Folder naming and permalink parsing\<close>

text \<open>
  C10. For every date string of at least ten characters (every ISO-8601 instant is
  longer) and every non-empty slug, the destination folder name is the first ten
  characters of the date, a hyphen and the slug; reading the folder name back (first
  ten characters as the date, everything from index 11 as the slug) gives the same
  permalink as deriving it from the date and the slug directly.
\<close>

theorem folder_permalink_roundtrip:
  assumes "10 \<le> length d" and "s \<noteq> []"
  shows "folderFromDateSlug d s = take 10 d @ ''-'' @ s
       \<and> slice 0 10 (folderFromDateSlug d s) = take 10 d
       \<and> sliceFrom 11 (folderFromDateSlug d s) = s
       \<and> permalinkFromFolder (folderFromDateSlug d s) = permalinkFromDateSlug d s"
proof -
  have f: "folderFromDateSlug d s = take 10 d @ ''-'' @ s"
    by (simp add: folderFromDateSlug_def slice_def)
  have len: "length (take 10 d) = 10"
    using assms(1) by simp
  have d10: "slice 0 10 (folderFromDateSlug d s) = take 10 d"
    using len by (simp add: f slice_def)
  have s11: "sliceFrom 11 (folderFromDateSlug d s) = s"
    using len by (simp add: f sliceFrom_def)
  have ne: "take 10 d \<noteq> []"
    using len by auto
  have y: "slice 0 4 (take 10 d) = slice 0 4 d"
    by (simp add: slice_def)
  have m: "slice 5 7 (take 10 d) = slice 5 7 d"
    by (simp add: slice_def drop_take)
  have dd: "slice 8 10 (take 10 d) = slice 8 10 d"
    by (simp add: slice_def drop_take)
  have "permalinkFromFolder (folderFromDateSlug d s) = permalinkFromDateSlug d s"
    unfolding permalinkFromFolder_def permalinkFromDateSlug_def d10 s11 Let_def
    using ne assms(2) by (simp add: y m dd)
  with f d10 s11 show ?thesis by simp
qed

theorem folder_permalink_roundtrip_witness:
  "10 \<le> length ''2024-03-09T10:11:12.000Z'' \<and> ''my-note'' \<noteq> []
   \<and> folderFromDateSlug ''2024-03-09T10:11:12.000Z'' ''my-note'' = ''2024-03-09-my-note''
   \<and> permalinkFromFolder (folderFromDateSlug ''2024-03-09T10:11:12.000Z'' ''my-note'')
       = ''/2024/03/09/my-note/''"
proof -
  have h1: "10 \<le> length ''2024-03-09T10:11:12.000Z''" by simp
  have h2: "''my-note'' \<noteq> []" by simp
  have e: "permalinkFromDateSlug ''2024-03-09T10:11:12.000Z'' ''my-note'' = ''/2024/03/09/my-note/''"
    by (simp add: permalinkFromDateSlug_def slice_def)
  have f: "take 10 ''2024-03-09T10:11:12.000Z'' @ ''-'' @ ''my-note'' = ''2024-03-09-my-note''"
    by simp
  note r = folder_permalink_roundtrip [OF h1 h2]
  have a: "folderFromDateSlug ''2024-03-09T10:11:12.000Z'' ''my-note'' = ''2024-03-09-my-note''"
    by (rule trans [OF r [THEN conjunct1] f])
  have b: "permalinkFromFolder (folderFromDateSlug ''2024-03-09T10:11:12.000Z'' ''my-note'')
       = ''/2024/03/09/my-note/''"
    by (rule trans [OF r [THEN conjunct2, THEN conjunct2, THEN conjunct2] e])
  from h1 h2 a b show ?thesis by (intro conjI)
qed


end
